theory Spec2Isabelle
  imports Main "HOL-Library.Word"
begin

section \<open>The custom JSON codecs of gufe\<close>

text \<open>
  This theory embeds \<^verbatim>\<open>src/gufe/custom_codecs.py\<close>: the functions
  \<^verbatim>\<open>default_from_dict\<close>, \<^verbatim>\<open>inherited_is_my_dict\<close>,
  \<^verbatim>\<open>is_openff_unit_dict\<close>, \<^verbatim>\<open>is_openff_quantity_dict\<close> and the
  \<^verbatim>\<open>to_dict\<close> / \<^verbatim>\<open>from_dict\<close> lambdas of \<^verbatim>\<open>BYTES_CODEC\<close>,
  \<^verbatim>\<open>NUMPY_CODEC\<close> and \<^verbatim>\<open>OPENFF_QUANTITY_CODEC\<close>.
  The library calls they are made of (the latin-1 text codec, numpy's
  \<^verbatim>\<open>tobytes\<close>, \<^verbatim>\<open>frombuffer\<close>, \<^verbatim>\<open>reshape\<close> and dtype names,
  Python's method resolution order, pint's product of a number and a unit) are given
  executable definitions that follow the libraries' documented behaviour.
\<close>

subsection \<open>Bytes, text and exceptions\<close>

text \<open>
  A Python \<^verbatim>\<open>bytes\<close> object is a list of 8-bit words. A Python \<^verbatim>\<open>str\<close> is a
  list of Unicode code points, so a string may hold code points above 255. Dictionary
  keys and the names written in the source are ASCII literals; \<open>str_of\<close> turns such a
  literal into a Python string.
\<close>

type_synonym byte = "8 word"
type_synonym pystr = "nat list"

definition str_of :: "string \<Rightarrow> pystr" where
  "str_of s = map of_char s"

text \<open>
  The exceptions the modelled code can raise. \<open>KeyError\<close> carries the missing key.
  \<open>OffsetUnitCalculusError\<close> is pint's refusal to multiply by an offset unit.
  \<open>Unsupported\<close> marks an input that lies outside this model: the model does not say
  what Python does with it.
  \<open>MalformedCanonicalDict\<close> is the decode error the specification names; no function
  of the source raises it.
\<close>

datatype error =
    KeyError string
  | AttributeError
  | TypeError
  | ValueError
  | UnicodeEncodeError
  | OffsetUnitCalculusError
  | Unsupported
  | MalformedCanonicalDict

text \<open>
  \<^verbatim>\<open>bytes.decode('latin-1')\<close> maps every byte to the code point of the same number
  and cannot fail. \<^verbatim>\<open>str.encode('latin-1')\<close> maps a code point below 256 to its
  byte and raises \<^verbatim>\<open>UnicodeEncodeError\<close> on any other.
\<close>

definition latin1_decode :: "byte list \<Rightarrow> pystr" where
  "latin1_decode b = map unat b"

definition latin1_encode :: "pystr \<Rightarrow> error + byte list" where
  "latin1_encode s =
     (if list_all (\<lambda>c. c < 256) s then Inr (map of_nat s) else Inl UnicodeEncodeError)"

subsection \<open>numpy arrays\<close>

text \<open>
  A dtype is an element kind, an item size in bytes and a byte order. As in numpy, the
  byte order of a dtype is relative to the running platform: native (\<^verbatim>\<open>=\<close>),
  byte-swapped, or not applicable (\<^verbatim>\<open>|\<close>, the one-byte types). The platform's
  own byte order is a parameter of every function that depends on it. The model covers
  the boolean, signed, unsigned and floating dtypes of fixed size; complex, structured
  and platform-dependent dtypes are outside it.
\<close>

datatype endian = LittleEndian | BigEndian

datatype byte_order = Native | Swapped | NotApplicable

datatype dkind = KBool | KInt | KUInt | KFloat

record dtype =
  kind :: dkind
  itemsize :: nat
  order :: byte_order

definition dtype_table :: "(dkind \<times> nat) list" where
  "dtype_table =
     [(KBool, 1),
      (KInt, 1), (KInt, 2), (KInt, 4), (KInt, 8),
      (KUInt, 1), (KUInt, 2), (KUInt, 4), (KUInt, 8),
      (KFloat, 2), (KFloat, 4), (KFloat, 8)]"

definition valid_dtype :: "dtype \<Rightarrow> bool" where
  "valid_dtype dt =
     ((kind dt, itemsize dt) \<in> set dtype_table \<and>
      (order dt = NotApplicable) = (itemsize dt = 1))"

fun kind_name :: "dkind \<Rightarrow> string" where
  "kind_name KBool = ''bool''"
| "kind_name KInt = ''int''"
| "kind_name KUInt = ''uint''"
| "kind_name KFloat = ''float''"

fun kind_char :: "dkind \<Rightarrow> string" where
  "kind_char KBool = ''b''"
| "kind_char KInt = ''i''"
| "kind_char KUInt = ''u''"
| "kind_char KFloat = ''f''"

definition size_digit :: "nat \<Rightarrow> string" where
  "size_digit n = (if n = 1 then ''1'' else if n = 2 then ''2'' else if n = 4 then ''4'' else ''8'')"

definition bits_digits :: "nat \<Rightarrow> string" where
  "bits_digits n = (if n = 1 then ''8'' else if n = 2 then ''16'' else if n = 4 then ''32'' else ''64'')"

text \<open>
  \<^verbatim>\<open>dtype.name\<close> (\<^verbatim>\<open>int64\<close>, \<^verbatim>\<open>float32\<close>, \<^verbatim>\<open>bool\<close>) and the type code of
  \<^verbatim>\<open>dtype.str\<close> without its byte-order character (\<^verbatim>\<open>i8\<close>, \<^verbatim>\<open>f4\<close>,
  \<^verbatim>\<open>b1\<close>).
\<close>

definition dtype_name :: "dkind \<Rightarrow> nat \<Rightarrow> string" where
  "dtype_name k n = (if k = KBool then ''bool'' else kind_name k @ bits_digits n)"

definition dtype_code :: "dkind \<Rightarrow> nat \<Rightarrow> string" where
  "dtype_code k n = kind_char k @ size_digit n"

fun flip :: "endian \<Rightarrow> endian" where
  "flip LittleEndian = BigEndian"
| "flip BigEndian = LittleEndian"

fun order_char :: "endian \<Rightarrow> string" where
  "order_char LittleEndian = ''<''"
| "order_char BigEndian = ''>''"

text \<open>
  \<^verbatim>\<open>str(obj.dtype)\<close>: the name of a dtype in native byte order, the byte-order
  character and type code of a byte-swapped one.
\<close>

definition str_dtype :: "endian \<Rightarrow> dtype \<Rightarrow> string" where
  "str_dtype platform dt =
     (if order dt = Swapped then order_char (flip platform) @ dtype_code (kind dt) (itemsize dt)
      else dtype_name (kind dt) (itemsize dt))"

text \<open>
  \<^verbatim>\<open>np.dtype(s)\<close> for a string: the spellings recognised for one entry of the
  table, each with the byte order it denotes on the given platform. Aliases that numpy
  also accepts (\<^verbatim>\<open>int\<close>, \<^verbatim>\<open>double\<close>, single letters) are not listed.
\<close>

definition relative_order :: "endian \<Rightarrow> nat \<Rightarrow> endian \<Rightarrow> byte_order" where
  "relative_order platform n e =
     (if n = 1 then NotApplicable else if e = platform then Native else Swapped)"

definition spellings :: "endian \<Rightarrow> dkind \<times> nat \<Rightarrow> (pystr \<times> dtype) list" where
  "spellings platform kn =
     (let k = fst kn; n = snd kn;
          mk = (\<lambda>e. \<lparr>kind = k, itemsize = n, order = relative_order platform n e\<rparr>)
      in [(str_of (dtype_name k n), mk platform),
          (str_of (dtype_code k n), mk platform),
          (str_of (''='' @ dtype_code k n), mk platform),
          (str_of (''<'' @ dtype_code k n), mk LittleEndian),
          (str_of (''>'' @ dtype_code k n), mk BigEndian)]
         @ (if n = 1 then [(str_of (''|'' @ dtype_code k n), mk platform)] else []))"

definition parse_dtype :: "endian \<Rightarrow> pystr \<Rightarrow> dtype option" where
  "parse_dtype platform s = map_of (concat (map (spellings platform) dtype_table)) s"

text \<open>
  The contents of an array as \<^verbatim>\<open>tolist()\<close> shows them: an item, or a row of
  sub-arrays. An item is the integer value of the element for the integer kinds, 0 or 1
  for booleans, and the IEEE bit pattern read as an unsigned integer for floats (the
  codec never does arithmetic on an element). The shape is kept beside the data, since
  an empty row does not determine it.
\<close>

datatype nested = Item int | Row "nested list"

record ndarray =
  dtype :: dtype
  shape :: "nat list"
  data :: nested

fun has_shape :: "nat list \<Rightarrow> nested \<Rightarrow> bool" where
  "has_shape [] (Item v) = True"
| "has_shape (n # ns) (Row rs) = (length rs = n \<and> list_all (has_shape ns) rs)"
| "has_shape _ _ = False"

text \<open>The elements in row-major (C) order: the last index varies fastest.\<close>

fun flatten :: "nested \<Rightarrow> int list" where
  "flatten (Item v) = [v]"
| "flatten (Row rs) = concat (map flatten rs)"

fun chunks :: "nat \<Rightarrow> nat \<Rightarrow> 'a list \<Rightarrow> 'a list list" where
  "chunks sz 0 xs = []"
| "chunks sz (Suc k) xs = take sz xs # chunks sz k (drop sz xs)"

fun build :: "nat list \<Rightarrow> int list \<Rightarrow> nested" where
  "build [] xs = Item (hd xs)"
| "build (n # ns) xs = Row (map (build ns) (chunks (prod_list ns) n xs))"

text \<open>The element at a multi-index, and the flat row-major position of a multi-index.\<close>

fun item_at :: "nested \<Rightarrow> nat list \<Rightarrow> int option" where
  "item_at (Item v) [] = Some v"
| "item_at (Row rs) (i # idx) = (if i < length rs then item_at (rs ! i) idx else None)"
| "item_at _ _ = None"

fun ravel :: "nat list \<Rightarrow> nat list \<Rightarrow> nat" where
  "ravel (n # ns) (i # idx) = i * prod_list ns + ravel ns idx"
| "ravel _ _ = 0"

fun valid_index :: "nat list \<Rightarrow> nat list \<Rightarrow> bool" where
  "valid_index [] [] = True"
| "valid_index (n # ns) (i # idx) = (i < n \<and> valid_index ns idx)"
| "valid_index _ _ = False"

text \<open>
  The bytes of one element. \<open>le_bytes n u\<close> are the \<open>n\<close> low bytes of \<open>u\<close>, least
  significant first; an element is stored in two's complement in the byte order that
  its dtype denotes on the platform.
\<close>

fun le_bytes :: "nat \<Rightarrow> nat \<Rightarrow> byte list" where
  "le_bytes 0 u = []"
| "le_bytes (Suc n) u = of_nat (u mod 256) # le_bytes n (u div 256)"

fun le_value :: "byte list \<Rightarrow> nat" where
  "le_value [] = 0"
| "le_value (b # bs) = unat b + 256 * le_value bs"

definition dtype_endian :: "endian \<Rightarrow> dtype \<Rightarrow> endian" where
  "dtype_endian platform dt = (if order dt = Swapped then flip platform else platform)"

definition bit_pattern :: "dtype \<Rightarrow> int \<Rightarrow> nat" where
  "bit_pattern dt v = nat (v mod 256 ^ itemsize dt)"

definition elem_bytes :: "endian \<Rightarrow> dtype \<Rightarrow> int \<Rightarrow> byte list" where
  "elem_bytes platform dt v =
     (if dtype_endian platform dt = LittleEndian
      then le_bytes (itemsize dt) (bit_pattern dt v)
      else rev (le_bytes (itemsize dt) (bit_pattern dt v)))"

definition elem_value :: "endian \<Rightarrow> dtype \<Rightarrow> byte list \<Rightarrow> int" where
  "elem_value platform dt bs =
     (let u = le_value (if dtype_endian platform dt = LittleEndian then bs else rev bs)
      in if kind dt = KInt \<and> 2 ^ (8 * itemsize dt - 1) \<le> u
         then int u - 2 ^ (8 * itemsize dt) else int u)"

definition valid_elem :: "dtype \<Rightarrow> int \<Rightarrow> bool" where
  "valid_elem dt v =
     (if kind dt = KInt
      then - (2 ^ (8 * itemsize dt - 1)) \<le> v \<and> v < 2 ^ (8 * itemsize dt - 1)
      else if kind dt = KBool then v = 0 \<or> v = 1
      else 0 \<le> v \<and> v < 2 ^ (8 * itemsize dt))"

text \<open>
  A well-formed array: a dtype of the table, data of the stated shape, every element in
  the range of the dtype.
\<close>

definition wf_ndarray :: "ndarray \<Rightarrow> bool" where
  "wf_ndarray a =
     (valid_dtype (dtype a) \<and> has_shape (shape a) (data a) \<and>
      list_all (valid_elem (dtype a)) (flatten (data a)))"

text \<open>
  \<^verbatim>\<open>obj.tobytes()\<close> copies the elements in row-major order, each in the byte order
  of the array's dtype.
\<close>

definition tobytes :: "endian \<Rightarrow> ndarray \<Rightarrow> byte list" where
  "tobytes platform a = concat (map (elem_bytes platform (dtype a)) (flatten (data a)))"

subsection \<open>Units, classes and dictionary values\<close>

text \<open>
  A pint unit is its units container: unit names with their exponents. Of the unit
  registry (\<^verbatim>\<open>DEFAULT_UNIT_REGISTRY\<close> of \<^verbatim>\<open>openff.units\<close>, which is not among the
  source files) the model keeps what the product of a number and a unit depends on: the
  names of its offset units (the units that are not multiplicative, such as the Celsius
  and Fahrenheit scales) and its option \<^verbatim>\<open>autoconvert_offset_to_baseunit\<close>, which
  pint sets to false unless the registry is created otherwise. The registry is a
  parameter of the decode.
\<close>

datatype pint_unit = Unit (container: "(string \<times> int) list")

record unit_registry =
  non_multiplicative :: "string list"
  autoconvert_offset_to_baseunit :: bool

text \<open>
  A class is its \<^verbatim>\<open>__module__\<close>, its \<^verbatim>\<open>__name__\<close> and its direct bases.
  \<^verbatim>\<open>stored.mro()\<close> is Python's C3 linearisation: the class, followed by the merge of
  the linearisations of its bases and the list of the bases. The merge repeatedly takes
  the first head of the remaining sequences that occurs in the tail of none of them; when
  there is no such head the hierarchy is inconsistent and Python refuses to create the
  class (\<open>None\<close>).
\<close>

datatype pyclass = PyClass (cls_module: string) (cls_name: string) (cls_bases: "pyclass list")

fun find_head :: "'a list list \<Rightarrow> 'a list list \<Rightarrow> 'a option" where
  "find_head seqs [] = None"
| "find_head seqs (s # rest) =
     (if list_all (\<lambda>t. hd s \<notin> set (tl t)) seqs then Some (hd s) else find_head seqs rest)"

definition drop_head :: "'a \<Rightarrow> 'a list \<Rightarrow> 'a list" where
  "drop_head c s = (if hd s = c then tl s else s)"

lemma find_head_is_head: "find_head seqs rest = Some c \<Longrightarrow> \<exists>s\<in>set rest. hd s = c"
  by (induction rest) (auto split: if_splits)

lemma set_drop_head_subset: "set (drop_head c s) \<subseteq> set s"
  by (cases s) (auto simp: drop_head_def)

lemma drop_head_sum_le:
  "sum_list (map length (map (drop_head c) ss)) \<le> sum_list (map length ss)"
proof (induction ss)
  case Nil
  then show ?case by simp
next
  case (Cons s ss)
  have "length (drop_head c s) \<le> length s" by (simp add: drop_head_def)
  with Cons.IH show ?case by simp
qed

lemma drop_head_sum_less:
  "\<forall>s\<in>set ss. s \<noteq> [] \<Longrightarrow> \<exists>s\<in>set ss. hd s = c \<Longrightarrow>
   sum_list (map length (map (drop_head c) ss)) < sum_list (map length ss)"
proof (induction ss)
  case Nil
  then show ?case by simp
next
  case (Cons s ss)
  show ?case
  proof (cases "hd s = c")
    case True
    with Cons.prems have "length (drop_head c s) < length s"
      by (simp add: drop_head_def)
    moreover have "sum_list (map length (map (drop_head c) ss)) \<le> sum_list (map length ss)"
      by (rule drop_head_sum_le)
    ultimately show ?thesis by simp
  next
    case False
    with Cons have "sum_list (map length (map (drop_head c) ss)) < sum_list (map length ss)"
      by auto
    moreover from False have "drop_head c s = s" by (simp add: drop_head_def)
    ultimately show ?thesis by simp
  qed
qed

lemma sum_length_filter_le:
  "sum_list (map length (filter P ss)) \<le> sum_list (map length ss)"
  by (induction ss) auto

function c3_merge :: "'a list list \<Rightarrow> 'a list option" where
  "c3_merge seqs =
     (let nonempty = filter (\<lambda>s. s \<noteq> []) seqs in
      if nonempty = [] then Some []
      else (case find_head nonempty nonempty of
              None \<Rightarrow> None
            | Some c \<Rightarrow> map_option ((#) c) (c3_merge (map (drop_head c) nonempty))))"
  by pat_completeness auto
termination
proof (relation "measure (\<lambda>seqs. sum_list (map length seqs))")
  show "wf (measure (\<lambda>seqs. sum_list (map length seqs)))" by simp
next
  fix seqs :: "'a list list" and ne c
  assume ne: "ne = filter (\<lambda>s. s \<noteq> []) seqs" and "ne \<noteq> []"
    and fh: "find_head ne ne = Some c"
  have "\<forall>s\<in>set ne. s \<noteq> []" using ne by simp
  moreover have "\<exists>s\<in>set ne. hd s = c" using fh by (rule find_head_is_head)
  ultimately have "sum_list (map length (map (drop_head c) ne)) < sum_list (map length ne)"
    by (rule drop_head_sum_less)
  also have "\<dots> \<le> sum_list (map length seqs)"
    unfolding ne by (rule sum_length_filter_le)
  finally show "(map (drop_head c) ne, seqs) \<in> measure (\<lambda>seqs. sum_list (map length seqs))"
    by simp
qed

declare c3_merge.simps [simp del]

fun mro :: "pyclass \<Rightarrow> pyclass list option" where
  "mro (PyClass m n bs) =
     (case those (map mro bs) of
        None \<Rightarrow> None
      | Some ls \<Rightarrow> map_option ((#) (PyClass m n bs)) (c3_merge (ls @ [bs])))"

text \<open>
  The subtype relation as the class statements declare it: a class is a subclass of
  itself and of every subclass-ancestor of one of its direct bases.
\<close>

fun is_subclass :: "pyclass \<Rightarrow> pyclass \<Rightarrow> bool" where
  "is_subclass (PyClass m n bs) a =
     (PyClass m n bs = a \<or> list_ex (\<lambda>b. is_subclass b a) bs)"

text \<open>
  The values a dictionary handed to a codec can hold: JSON values, byte strings, and the
  arrays, units and quantities that codecs produce. A float is its IEEE-754 binary64 bit
  pattern. A dictionary maps its (string) keys to values.
\<close>

datatype pyval =
    VNone
  | VBool bool
  | VInt int
  | VFloat "64 word"
  | VStr pystr
  | VBytes "byte list"
  | VList "pyval list"
  | VArray ndarray
  | VUnit pint_unit
  | VQuantity pyval pint_unit

type_synonym pydict = "string \<rightharpoonup> pyval"

subsection \<open>numpy: dtype lookup, \<^verbatim>\<open>frombuffer\<close> and \<^verbatim>\<open>reshape\<close>\<close>

text \<open>
  \<^verbatim>\<open>np.dtype(x)\<close>: a string of the table is looked up; \<^verbatim>\<open>None\<close> is numpy's default
  \<^verbatim>\<open>float64\<close>. Every other argument, a string outside the table included, is outside
  the model.
\<close>

fun np_dtype :: "endian \<Rightarrow> pyval \<Rightarrow> error + dtype" where
  "np_dtype platform (VStr s) =
     (case parse_dtype platform s of None \<Rightarrow> Inl Unsupported | Some dt \<Rightarrow> Inr dt)"
| "np_dtype platform VNone = Inr \<lparr>kind = KFloat, itemsize = 8, order = Native\<rparr>"
| "np_dtype platform _ = Inl Unsupported"

text \<open>
  \<^verbatim>\<open>np.frombuffer(buf, dtype=dt)\<close>: a one-dimensional array over the bytes of a
  bytes-like object. An array is bytes-like too and exposes its own bytes; units and
  quantities are outside the model; the remaining values are not bytes-like
  (\<^verbatim>\<open>TypeError\<close>). A buffer whose length is not a multiple of the item size is refused
  with \<^verbatim>\<open>ValueError\<close>.
\<close>

fun buffer_of :: "endian \<Rightarrow> pyval \<Rightarrow> error + byte list" where
  "buffer_of platform (VBytes b) = Inr b"
| "buffer_of platform (VArray a) = Inr (tobytes platform a)"
| "buffer_of platform (VUnit un) = Inl Unsupported"
| "buffer_of platform (VQuantity mag un) = Inl Unsupported"
| "buffer_of platform _ = Inl TypeError"

definition frombuffer :: "endian \<Rightarrow> pyval \<Rightarrow> dtype \<Rightarrow> error + ndarray" where
  "frombuffer platform buf dt =
     (case buffer_of platform buf of
        Inl e \<Rightarrow> Inl e
      | Inr b \<Rightarrow>
          if itemsize dt = 0 \<or> length b mod itemsize dt \<noteq> 0 then Inl ValueError
          else Inr \<lparr>dtype = dt,
                    shape = [length b div itemsize dt],
                    data = Row (map (\<lambda>c. Item (elem_value platform dt c))
                                  (chunks (itemsize dt) (length b div itemsize dt) b))\<rparr>)"

text \<open>
  \<^verbatim>\<open>a.reshape(newshape)\<close>: the new shape is a list of integers or one integer; other
  arguments are outside the model. One dimension may be negative and is then inferred
  from the others; more than one negative dimension, and a shape that does not hold
  exactly the elements of the array, are refused with \<^verbatim>\<open>ValueError\<close>.
\<close>

fun as_index :: "pyval \<Rightarrow> int option" where
  "as_index (VInt i) = Some i"
| "as_index _ = None"

fun shape_arg :: "pyval \<Rightarrow> int list option" where
  "shape_arg (VList vs) = those (map as_index vs)"
| "shape_arg v = map_option (\<lambda>i. [i]) (as_index v)"

definition resolve_dims :: "nat \<Rightarrow> int list \<Rightarrow> error + nat list" where
  "resolve_dims sz dims =
     (if filter (\<lambda>d. d < 0) dims = [] then
        (if prod_list (map nat dims) = sz then Inr (map nat dims) else Inl ValueError)
      else if length (filter (\<lambda>d. d < 0) dims) = 1 then
        (let known = prod_list (map nat (filter (\<lambda>d. 0 \<le> d) dims))
         in if known = 0 \<or> sz mod known \<noteq> 0 then Inl ValueError
            else Inr (map (\<lambda>d. if d < 0 then sz div known else nat d) dims))
      else Inl ValueError)"

definition reshape :: "ndarray \<Rightarrow> pyval \<Rightarrow> error + ndarray" where
  "reshape a newshape =
     (case shape_arg newshape of
        None \<Rightarrow> Inl Unsupported
      | Some dims \<Rightarrow>
          (case resolve_dims (prod_list (shape a)) dims of
             Inl e \<Rightarrow> Inl e
           | Inr sh \<Rightarrow> Inr \<lparr>dtype = dtype a, shape = sh, data = build sh (flatten (data a))\<rparr>))"

subsection \<open>The codecs for bytes, arrays and quantities\<close>

text \<open>
  \<^verbatim>\<open>BYTES_CODEC\<close>:
  \<^verbatim>\<open>to_dict=lambda obj: {'latin-1': obj.decode('latin-1')}\<close> and
  \<^verbatim>\<open>from_dict=lambda dct: dct['latin-1'].encode('latin-1')\<close>.
  Of the values of the model only a string has an \<^verbatim>\<open>encode\<close> method.
\<close>

definition BYTES_to_dict :: "byte list \<Rightarrow> pydict" where
  "BYTES_to_dict obj = [''latin-1'' \<mapsto> VStr (latin1_decode obj)]"

definition BYTES_from_dict :: "pydict \<Rightarrow> error + byte list" where
  "BYTES_from_dict dct =
     (case dct ''latin-1'' of
        None \<Rightarrow> Inl (KeyError ''latin-1'')
      | Some (VStr s) \<Rightarrow> latin1_encode s
      | Some _ \<Rightarrow> Inl AttributeError)"

text \<open>
  \<^verbatim>\<open>NUMPY_CODEC\<close>:
  \<^verbatim>\<open>to_dict=lambda obj: {'dtype': str(obj.dtype), 'shape': list(obj.shape), 'bytes': obj.tobytes()}\<close>
  and
  \<^verbatim>\<open>from_dict=lambda dct: np.frombuffer(dct['bytes'], dtype=np.dtype(dct['dtype'])).reshape(dct['shape'])\<close>.
  Python evaluates \<^verbatim>\<open>dct['bytes']\<close>, then \<^verbatim>\<open>dct['dtype']\<close> and
  \<^verbatim>\<open>np.dtype\<close>, then \<^verbatim>\<open>np.frombuffer\<close>, then \<^verbatim>\<open>dct['shape']\<close>, then
  \<^verbatim>\<open>reshape\<close>; the first failure is the exception raised.
\<close>

definition NUMPY_to_dict :: "endian \<Rightarrow> ndarray \<Rightarrow> pydict" where
  "NUMPY_to_dict platform obj =
     [''dtype'' \<mapsto> VStr (str_of (str_dtype platform (dtype obj))),
      ''shape'' \<mapsto> VList (map (\<lambda>n. VInt (int n)) (shape obj)),
      ''bytes'' \<mapsto> VBytes (tobytes platform obj)]"

definition NUMPY_from_dict :: "endian \<Rightarrow> pydict \<Rightarrow> error + ndarray" where
  "NUMPY_from_dict platform dct =
     (case dct ''bytes'' of
        None \<Rightarrow> Inl (KeyError ''bytes'')
      | Some buf \<Rightarrow>
     (case dct ''dtype'' of
        None \<Rightarrow> Inl (KeyError ''dtype'')
      | Some name \<Rightarrow>
     (case np_dtype platform name of
        Inl e \<Rightarrow> Inl e
      | Inr dt \<Rightarrow>
     (case frombuffer platform buf dt of
        Inl e \<Rightarrow> Inl e
      | Inr flat \<Rightarrow>
     (case dct ''shape'' of
        None \<Rightarrow> Inl (KeyError ''shape'')
      | Some newshape \<Rightarrow> reshape flat newshape)))))"

text \<open>
  \<^verbatim>\<open>OPENFF_QUANTITY_CODEC\<close>:
  \<^verbatim>\<open>to_dict=lambda obj: {'magnitude': obj.m, 'unit': obj.u, ":is_custom:": True, "pint_unit_registry": "openff_units"}\<close>
  and \<^verbatim>\<open>from_dict=lambda dct: dct['magnitude'] * dct['unit']\<close>.
  A quantity is a magnitude (a number or a numeric array) with a unit.
  \<open>py_mul\<close> models Python's \<^verbatim>\<open>*\<close> on a magnitude and a unit only, where it is
  pint's \<^verbatim>\<open>Unit.__mul__\<close>: the number 1 times a unit is the quantity 1 of that unit;
  any other magnitude \<open>x\<close> times a unit is \<^verbatim>\<open>Quantity(1, unit) * x\<close>, which pint
  refuses with \<^verbatim>\<open>OffsetUnitCalculusError\<close> when the unit holds offset units and
  \<^verbatim>\<open>_ok_for_muldiv\<close> is false or the one offset unit has an exponent other than 1, and
  which is the quantity of magnitude \<open>x\<close> and that unit otherwise. An array times a unit
  with offset units goes through numpy's dispatch and is outside the model.
\<close>

fun is_magnitude :: "pyval \<Rightarrow> bool" where
  "is_magnitude (VInt i) = True"
| "is_magnitude (VFloat x) = True"
| "is_magnitude (VArray a) = (kind (dtype a) \<noteq> KBool)"
| "is_magnitude _ = False"

text \<open>The number 1: the integer, or the float whose binary64 pattern is that of 1.0.\<close>

fun is_number_one :: "pyval \<Rightarrow> bool" where
  "is_number_one (VInt i) = (i = 1)"
| "is_number_one (VFloat x) = (x = 0x3FF0000000000000)"
| "is_number_one _ = False"

fun is_array :: "pyval \<Rightarrow> bool" where
  "is_array (VArray a) = True"
| "is_array _ = False"

text \<open>
  \<^verbatim>\<open>_get_non_multiplicative_units\<close>: the entries of the units container whose unit is
  an offset unit of the registry. \<^verbatim>\<open>_ok_for_muldiv\<close>: with more than one offset unit
  the answer is no; with one, the answer is no when the container holds another unit as
  well, when the registry does not convert offset units automatically, or when the first
  exponent of the container is not 1.
\<close>

definition offset_units :: "unit_registry \<Rightarrow> pint_unit \<Rightarrow> (string \<times> int) list" where
  "offset_units reg un =
     filter (\<lambda>entry. fst entry \<in> set (non_multiplicative reg)) (container un)"

definition ok_for_muldiv :: "unit_registry \<Rightarrow> pint_unit \<Rightarrow> bool" where
  "ok_for_muldiv reg un =
     (if 1 < length (offset_units reg un) then False
      else if length (offset_units reg un) = 1 then
        \<not> 1 < length (container un) \<and>
        \<not> (length (container un) = 1 \<and> \<not> autoconvert_offset_to_baseunit reg) \<and>
        snd (hd (container un)) = 1
      else True)"

fun py_mul :: "unit_registry \<Rightarrow> pyval \<Rightarrow> pyval \<Rightarrow> error + pyval" where
  "py_mul reg x (VUnit un) =
     (if \<not> is_magnitude x then Inl Unsupported
      else if is_number_one x then Inr (VQuantity x un)
      else if is_array x \<and> offset_units reg un \<noteq> [] then Inl Unsupported
      else if \<not> ok_for_muldiv reg un then Inl OffsetUnitCalculusError
      else if length (offset_units reg un) = 1 \<and> snd (hd (offset_units reg un)) \<noteq> 1
      then Inl OffsetUnitCalculusError
      else Inr (VQuantity x un))"
| "py_mul reg x _ = Inl Unsupported"

fun OPENFF_QUANTITY_to_dict :: "pyval \<Rightarrow> error + pydict" where
  "OPENFF_QUANTITY_to_dict (VQuantity mag un) =
     Inr [''magnitude'' \<mapsto> mag,
          ''unit'' \<mapsto> VUnit un,
          '':is_custom:'' \<mapsto> VBool True,
          ''pint_unit_registry'' \<mapsto> VStr (str_of ''openff_units'')]"
| "OPENFF_QUANTITY_to_dict _ = Inl AttributeError"

definition OPENFF_QUANTITY_from_dict :: "unit_registry \<Rightarrow> pydict \<Rightarrow> error + pyval" where
  "OPENFF_QUANTITY_from_dict reg dct =
     (case dct ''magnitude'' of
        None \<Rightarrow> Inl (KeyError ''magnitude'')
      | Some mag \<Rightarrow>
          (case dct ''unit'' of
             None \<Rightarrow> Inl (KeyError ''unit'')
           | Some un \<Rightarrow> py_mul reg mag un))"

subsection \<open>The dictionary predicates\<close>

text \<open>
  \<^verbatim>\<open>is_openff_unit_dict\<close> and \<^verbatim>\<open>is_openff_quantity_dict\<close>. The subscript
  \<^verbatim>\<open>dct[k]\<close> raises \<^verbatim>\<open>KeyError\<close> on a missing key. Python's
  \<^verbatim>\<open>is_custom and e\<close> is \<^verbatim>\<open>False\<close> without evaluating \<^verbatim>\<open>e\<close> when
  \<^verbatim>\<open>is_custom\<close> is false, and the value of \<^verbatim>\<open>e\<close> otherwise. The comparison
  \<^verbatim>\<open>v == "openff_units"\<close> is a truth value for the JSON values and byte strings: true
  for that string and false for everything else. Arrays, units and quantities define
  their own \<^verbatim>\<open>==\<close> (an array compares element by element and does not answer with a
  truth value); they are outside the model.
\<close>

definition subscript :: "pydict \<Rightarrow> string \<Rightarrow> error + pyval" where
  "subscript dct k = (case dct k of None \<Rightarrow> Inl (KeyError k) | Some v \<Rightarrow> Inr v)"

fun eq_str :: "pyval \<Rightarrow> string \<Rightarrow> error + bool" where
  "eq_str (VArray a) lit = Inl Unsupported"
| "eq_str (VUnit un) lit = Inl Unsupported"
| "eq_str (VQuantity mag un) lit = Inl Unsupported"
| "eq_str v lit = Inr (v = VStr (str_of lit))"

definition is_openff_unit_dict :: "pydict \<Rightarrow> error + bool" where
  "is_openff_unit_dict dct =
     (let expected = [''pint_unit_registry'', ''unit_name'', '':is_custom:''];
          is_custom = list_all (\<lambda>exp. dct exp \<noteq> None) expected
      in if is_custom
         then (case subscript dct ''pint_unit_registry'' of
                 Inl e \<Rightarrow> Inl e
               | Inr v \<Rightarrow> eq_str v ''openff_units'')
         else Inr False)"

definition is_openff_quantity_dict :: "pydict \<Rightarrow> error + bool" where
  "is_openff_quantity_dict dct =
     (let expected = [''pint_unit_registry'', ''magnitude'', '':is_custom:'', ''unit''];
          is_custom = list_all (\<lambda>exp. dct exp \<noteq> None) expected
      in if is_custom
         then (case subscript dct ''pint_unit_registry'' of
                 Inl e \<Rightarrow> Inl e
               | Inr v \<Rightarrow> eq_str v ''openff_units'')
         else Inr False)"

subsection \<open>Functions that copy and then mutate a dictionary\<close>

text \<open>
  \<^verbatim>\<open>default_from_dict\<close> and \<^verbatim>\<open>inherited_is_my_dict\<close> receive a reference to the
  caller's dictionary, make a copy with \<^verbatim>\<open>dict(dct)\<close> and pop keys from the copy.
  The store holds the dictionary objects, addressed by their position, and the log of the
  calls made to the class resolver \<^verbatim>\<open>gufe.tokenization.get_class\<close>. The resolver
  itself, which is not among the source files, is a parameter: it returns a class or
  raises. An exception leaves the store as it is at the point of the raise.
\<close>

record store =
  dicts :: "pydict list"
  resolver_calls :: "(pyval \<times> pyval) list"

definition dict_copy :: "nat \<Rightarrow> store \<Rightarrow> nat \<times> store" where
  "dict_copy a s = (length (dicts s), s\<lparr>dicts := dicts s @ [dicts s ! a]\<rparr>)"

definition dict_pop :: "nat \<Rightarrow> string \<Rightarrow> store \<Rightarrow> (error + pyval) \<times> store" where
  "dict_pop a k s =
     (case (dicts s ! a) k of
        None \<Rightarrow> (Inl (KeyError k), s)
      | Some v \<Rightarrow> (Inr v, s\<lparr>dicts := (dicts s)[a := (dicts s ! a)(k := None)]\<rparr>))"

definition dict_del :: "nat \<Rightarrow> string \<Rightarrow> store \<Rightarrow> (error + unit) \<times> store" where
  "dict_del a k s =
     (case (dicts s ! a) k of
        None \<Rightarrow> (Inl (KeyError k), s)
      | Some v \<Rightarrow> (Inr (), s\<lparr>dicts := (dicts s)[a := (dicts s ! a)(k := None)]\<rparr>))"

definition call_get_class ::
  "(pyval \<Rightarrow> pyval \<Rightarrow> error + pyclass) \<Rightarrow> pyval \<Rightarrow> pyval \<Rightarrow> store \<Rightarrow> (error + pyclass) \<times> store" where
  "call_get_class get_class module qualname s =
     (get_class module qualname, s\<lparr>resolver_calls := resolver_calls s @ [(module, qualname)]\<rparr>)"

text \<open>
  \<^verbatim>\<open>default_from_dict(dct)\<close>. The constructor call \<^verbatim>\<open>cls(**dct)\<close> is the parameter
  \<open>construct\<close>, applied to the class and to the keyword arguments, the contents of the
  copy.
\<close>

definition default_from_dict ::
  "(pyval \<Rightarrow> pyval \<Rightarrow> error + pyclass) \<Rightarrow> (pyclass \<Rightarrow> pydict \<Rightarrow> error + 'obj) \<Rightarrow>
   nat \<Rightarrow> store \<Rightarrow> (error + 'obj) \<times> store" where
  "default_from_dict get_class construct dct s =
     (let (dct', s1) = dict_copy dct s in
      case dict_pop dct' ''__module__'' s1 of
        (Inl e, s2) \<Rightarrow> (Inl e, s2)
      | (Inr module, s2) \<Rightarrow>
     (case dict_pop dct' ''__class__'' s2 of
        (Inl e, s3) \<Rightarrow> (Inl e, s3)
      | (Inr qualname, s3) \<Rightarrow>
     (case dict_del dct' '':is_custom:'' s3 of
        (Inl e, s4) \<Rightarrow> (Inl e, s4)
      | (Inr _, s4) \<Rightarrow>
     (case call_get_class get_class module qualname s4 of
        (Inl e, s5) \<Rightarrow> (Inl e, s5)
      | (Inr cls, s5) \<Rightarrow> (construct cls (dicts s5 ! dct'), s5)))))"

text \<open>
  \<^verbatim>\<open>inherited_is_my_dict(dct, cls)\<close>. A class that the resolver returns exists, so its
  linearisation does; the \<open>None\<close> branch is the \<^verbatim>\<open>TypeError\<close> Python would have raised
  on creating the class. The classes of the model are ordinary classes: a metaclass (a
  subclass of \<^verbatim>\<open>type\<close>), on which the call \<^verbatim>\<open>stored.mro()\<close> lacks its argument and
  raises, is not represented.
\<close>

definition inherited_is_my_dict ::
  "(pyval \<Rightarrow> pyval \<Rightarrow> error + pyclass) \<Rightarrow> nat \<Rightarrow> pyclass \<Rightarrow> store \<Rightarrow> (error + bool) \<times> store" where
  "inherited_is_my_dict get_class dct cls s =
     (if \<not> ((dicts s ! dct) ''__module__'' \<noteq> None \<and> (dicts s ! dct) ''__class__'' \<noteq> None)
      then (Inr False, s)
      else
        let (dct', s1) = dict_copy dct s in
        case dict_pop dct' ''__module__'' s1 of
          (Inl e, s2) \<Rightarrow> (Inl e, s2)
        | (Inr module, s2) \<Rightarrow>
       (case dict_pop dct' ''__class__'' s2 of
          (Inl e, s3) \<Rightarrow> (Inl e, s3)
        | (Inr classname, s3) \<Rightarrow>
       (case call_get_class get_class module classname s3 of
          (Inl e, s4) \<Rightarrow> (Inl e, s4)
        | (Inr stored, s4) \<Rightarrow>
       (case mro stored of
          None \<Rightarrow> (Inl TypeError, s4)
        | Some linearisation \<Rightarrow> (Inr (cls \<in> set linearisation), s4)))))"

text \<open>
  Modelled from the spec: the dictionary match of a codec that is registered for one
  class (\<^verbatim>\<open>JSONCodec\<close> in \<^verbatim>\<open>gufe/custom_json.py\<close>, which is not among the source
  files). The specification says that a canonical dict of a class-identified type carries
  \<^verbatim>\<open>__module__\<close> and \<^verbatim>\<open>__class__\<close> keys and speaks of the class-identity matches
  of the path, bytes and array codecs: such a codec matches a dictionary whose two entries
  name its class.
\<close>

definition class_identity_match :: "pyclass \<Rightarrow> pydict \<Rightarrow> bool" where
  "class_identity_match cls dct =
     (dct ''__module__'' = Some (VStr (str_of (cls_module cls))) \<and>
      dct ''__class__'' = Some (VStr (str_of (cls_name cls))))"

text \<open>The classes of \<^verbatim>\<open>PATH_CODEC\<close>, \<^verbatim>\<open>BYTES_CODEC\<close> and \<^verbatim>\<open>NUMPY_CODEC\<close>.\<close>

definition object_class :: pyclass where
  "object_class = PyClass ''builtins'' ''object'' []"

definition Path_class :: pyclass where
  "Path_class = PyClass ''pathlib'' ''Path'' [PyClass ''pathlib'' ''PurePath'' [object_class]]"

definition bytes_class :: pyclass where
  "bytes_class = PyClass ''builtins'' ''bytes'' [object_class]"

definition ndarray_class :: pyclass where
  "ndarray_class = PyClass ''numpy'' ''ndarray'' [object_class]"

text \<open>
  The answers of the dictionary matches of the registered codecs on the dictionary at an
  address, in the order unit, quantity, settings, path, bytes, array. A class lies outside
  the hierarchy of a base class, for a resolver, when the resolver does not resolve the
  class's names to a class that has the base class in its linearisation.
\<close>

definition outside_hierarchy ::
  "(pyval \<Rightarrow> pyval \<Rightarrow> error + pyclass) \<Rightarrow> pyclass \<Rightarrow> pyclass \<Rightarrow> bool" where
  "outside_hierarchy get_class base c =
     (case get_class (VStr (str_of (cls_module c))) (VStr (str_of (cls_name c))) of
        Inl e \<Rightarrow> True
      | Inr stored \<Rightarrow> (case mro stored of None \<Rightarrow> True | Some l \<Rightarrow> base \<notin> set l))"

definition dict_matches ::
  "(pyval \<Rightarrow> pyval \<Rightarrow> error + pyclass) \<Rightarrow> pyclass \<Rightarrow> nat \<Rightarrow> store \<Rightarrow> bool list" where
  "dict_matches get_class base a s =
     [is_openff_unit_dict (dicts s ! a) = Inr True,
      is_openff_quantity_dict (dicts s ! a) = Inr True,
      fst (inherited_is_my_dict get_class a base s) = Inr True,
      class_identity_match Path_class (dicts s ! a),
      class_identity_match bytes_class (dicts s ! a),
      class_identity_match ndarray_class (dicts s ! a)]"

subsection \<open>Example values\<close>

text \<open>The two-by-three \<^verbatim>\<open>int64\<close> array of the specification's scenario.\<close>

definition int64 :: dtype where
  "int64 = \<lparr>kind = KInt, itemsize = 8, order = Native\<rparr>"

definition example_array :: ndarray where
  "example_array =
     \<lparr>dtype = int64, shape = [2, 3],
      data = Row [Row [Item 1, Item 2, Item 3], Row [Item 4, Item 5, Item 6]]\<rparr>"

text \<open>A one-element \<^verbatim>\<open>int32\<close> array holding 1, in the given byte order.\<close>

definition int32_one :: "byte_order \<Rightarrow> ndarray" where
  "int32_one ord = \<lparr>dtype = \<lparr>kind = KInt, itemsize = 4, order = ord\<rparr>, shape = [1], data = Row [Item 1]\<rparr>"

text \<open>
  The payload as the specification describes it, for comparison with \<open>tobytes\<close>: the
  elements in row-major order, each always least significant byte first.
\<close>

definition little_endian_payload :: "ndarray \<Rightarrow> byte list" where
  "little_endian_payload a =
     concat (map (\<lambda>v. le_bytes (itemsize (dtype a)) (bit_pattern (dtype a) v)) (flatten (data a)))"

text \<open>
  Two array-shaped dictionaries: one without the \<^verbatim>\<open>bytes\<close> key, and one whose
  payload of 16 bytes holds two \<^verbatim>\<open>int64\<close> items where the shape asks for six.
\<close>

definition no_bytes_dict :: pydict where
  "no_bytes_dict = [''dtype'' \<mapsto> VStr (str_of ''int64''), ''shape'' \<mapsto> VList [VInt 2, VInt 3]]"

definition short_bytes_dict :: pydict where
  "short_bytes_dict =
     [''dtype'' \<mapsto> VStr (str_of ''int64''), ''shape'' \<mapsto> VList [VInt 2, VInt 3],
      ''bytes'' \<mapsto> VBytes [1, 0, 0, 0, 0, 0, 0, 0, 2, 0, 0, 0, 0, 0, 0, 0]]"

text \<open>
  A settings hierarchy, a class resolver that knows it and the classes of the other codecs,
  a constructor that records the class and the keyword arguments it is given, and a store
  holding one encoded settings object.
\<close>

definition BaseModel_class :: pyclass where
  "BaseModel_class = PyClass ''pydantic.main'' ''BaseModel'' [object_class]"

definition SettingsBaseModel_class :: pyclass where
  "SettingsBaseModel_class =
     PyClass ''gufe.settings.models'' ''SettingsBaseModel'' [BaseModel_class]"

definition ThermoSettings_class :: pyclass where
  "ThermoSettings_class =
     PyClass ''gufe.settings.models'' ''ThermoSettings'' [SettingsBaseModel_class]"

definition example_get_class :: "pyval \<Rightarrow> pyval \<Rightarrow> error + pyclass" where
  "example_get_class module qualname =
     (if module = VStr (str_of ''gufe.settings.models'') \<and> qualname = VStr (str_of ''ThermoSettings'')
      then Inr ThermoSettings_class
      else if module = VStr (str_of ''pathlib'') \<and> qualname = VStr (str_of ''Path'')
      then Inr Path_class
      else if module = VStr (str_of ''builtins'') \<and> qualname = VStr (str_of ''bytes'')
      then Inr bytes_class
      else if module = VStr (str_of ''numpy'') \<and> qualname = VStr (str_of ''ndarray'')
      then Inr ndarray_class
      else Inl AttributeError)"

definition example_construct :: "pyclass \<Rightarrow> pydict \<Rightarrow> error + pyclass \<times> pydict" where
  "example_construct cls kwargs = Inr (cls, kwargs)"

definition settings_dict :: pydict where
  "settings_dict =
     [''__module__'' \<mapsto> VStr (str_of ''gufe.settings.models''),
      ''__class__'' \<mapsto> VStr (str_of ''ThermoSettings''),
      '':is_custom:'' \<mapsto> VBool True,
      ''temperature'' \<mapsto> VFloat 0x4072A33333333333,
      ''pressure'' \<mapsto> VNone]"

definition settings_store :: store where
  "settings_store = \<lparr>dicts = [settings_dict], resolver_calls = []\<rparr>"

text \<open>
  The quantity of magnitude 9.8 (as a binary64 bit pattern) and unit
  \<^verbatim>\<open>meter/second**2\<close>; a dictionary that holds the keys of an encoded unit and of an
  encoded quantity at once; and a dictionary with \<^verbatim>\<open>__class__\<close> but no
  \<^verbatim>\<open>__module__\<close>.
\<close>

definition gravity :: pyval where
  "gravity = VQuantity (VFloat 0x402399999999999A) (Unit [(''meter'', 1), (''second'', - 2)])"

text \<open>
  A unit registry with pint's temperature scales as its offset units and the option
  \<^verbatim>\<open>autoconvert_offset_to_baseunit\<close> at pint's default; the quantity 25.0 degrees
  Celsius; and the dictionary that encodes it.
\<close>

definition example_registry :: unit_registry where
  "example_registry =
     \<lparr>non_multiplicative = [''degree_Celsius'', ''degree_Fahrenheit'', ''degree_Reaumur''],
      autoconvert_offset_to_baseunit = False\<rparr>"

definition room_temperature :: pyval where
  "room_temperature = VQuantity (VFloat 0x4039000000000000) (Unit [(''degree_Celsius'', 1)])"

definition room_temperature_dict :: pydict where
  "room_temperature_dict =
     [''magnitude'' \<mapsto> VFloat 0x4039000000000000,
      ''unit'' \<mapsto> VUnit (Unit [(''degree_Celsius'', 1)]),
      '':is_custom:'' \<mapsto> VBool True,
      ''pint_unit_registry'' \<mapsto> VStr (str_of ''openff_units'')]"

definition unit_and_quantity_dict :: pydict where
  "unit_and_quantity_dict =
     ['':is_custom:'' \<mapsto> VBool True,
      ''pint_unit_registry'' \<mapsto> VStr (str_of ''openff_units''),
      ''unit_name'' \<mapsto> VStr (str_of ''meter''),
      ''magnitude'' \<mapsto> VFloat 0x402399999999999A,
      ''unit'' \<mapsto> VUnit (Unit [(''meter'', 1)])]"

definition partial_dict :: pydict where
  "partial_dict =
     [''__class__'' \<mapsto> VStr (str_of ''ThermoSettings''), '':is_custom:'' \<mapsto> VBool True]"

section \<open>Properties\<close>

subsection \<open>Byte strings survive the latin-1 round trip\<close>

lemma unat_byte_less: "unat (b :: byte) < 256"
  using unsigned_less [of b, where ?'a = nat] by simp

lemma latin1_roundtrip: "latin1_encode (latin1_decode b) = Inr b"
proof -
  have "list_all (\<lambda>c. c < 256) (map unat b)"
    by (simp add: list_all_iff unat_byte_less)
  moreover have "map of_nat (map unat b) = b"
    by (simp add: map_idI)
  ultimately show ?thesis
    by (simp add: latin1_encode_def latin1_decode_def)
qed

text \<open>
  Claim C1. For every byte sequence \<open>b\<close>, with any byte values from 0 to 255, decoding
  the dictionary that \<^verbatim>\<open>BYTES_CODEC.to_dict\<close> makes of \<open>b\<close> with
  \<^verbatim>\<open>BYTES_CODEC.from_dict\<close> succeeds and returns \<open>b\<close> byte for byte.
\<close>

theorem C1_bytes_roundtrip: "BYTES_from_dict (BYTES_to_dict b) = Inr b"
  by (simp add: BYTES_from_dict_def BYTES_to_dict_def latin1_roundtrip)

text \<open>The byte string \<^verbatim>\<open>b'\x00\xFF\x41'\<close> of the specification's scenario.\<close>

theorem C1_bytes_roundtrip_witness:
  "BYTES_to_dict [0x00, 0xFF, 0x41] ''latin-1'' = Some (VStr [0, 255, 65]) \<and>
   BYTES_from_dict (BYTES_to_dict [0x00, 0xFF, 0x41]) = Inr [0x00, 0xFF, 0x41]"
  using C1_bytes_roundtrip [of "[0x00, 0xFF, 0x41]"]
  by (simp add: BYTES_to_dict_def latin1_decode_def)

subsection \<open>Arrays: element bytes, flattening and dtype names\<close>

lemma chunks_concat:
  "\<forall>x\<in>set xs. length (f x) = sz \<Longrightarrow> chunks sz (length xs) (concat (map f xs)) = map f xs"
  by (induction xs) auto

lemma length_le_bytes: "length (le_bytes n u) = n"
  by (induction n arbitrary: u) auto

lemma le_value_le_bytes: "u < 256 ^ n \<Longrightarrow> le_value (le_bytes n u) = u"
proof (induction n arbitrary: u)
  case 0
  then show ?case by simp
next
  case (Suc n)
  from Suc.prems have "u div 256 < 256 ^ n"
    by (simp add: less_mult_imp_div_less mult.commute)
  then have "le_value (le_bytes n (u div 256)) = u div 256" by (rule Suc.IH)
  moreover have "unat (of_nat (u mod 256) :: byte) = u mod 256"
    by (simp add: unat_of_nat)
  ultimately show ?case by simp
qed

lemma length_elem_bytes: "length (elem_bytes p dt v) = itemsize dt"
  by (simp add: elem_bytes_def length_le_bytes)

lemma bit_pattern_less: "bit_pattern dt v < 256 ^ itemsize dt"
proof -
  have "v mod 256 ^ itemsize dt < 256 ^ itemsize dt" by simp
  then have "nat (v mod 256 ^ itemsize dt) < nat (256 ^ itemsize dt)"
    by (simp add: nat_less_iff)
  moreover have "nat ((256::int) ^ itemsize dt) = 256 ^ itemsize dt"
    by (simp add: nat_power_eq)
  ultimately show ?thesis
    by (simp add: bit_pattern_def)
qed

lemma le_value_elem_bytes:
  "le_value (if dtype_endian p dt = LittleEndian then elem_bytes p dt v else rev (elem_bytes p dt v))
     = bit_pattern dt v"
  by (simp add: elem_bytes_def le_value_le_bytes bit_pattern_less)

lemma pow256: "(256::int) ^ n = 2 ^ (8 * n)"
proof -
  have "(256::int) = 2 ^ 8" by simp
  then show ?thesis by (simp only: power_mult)
qed

lemma elem_value_elem_bytes:
  "elem_value p dt (elem_bytes p dt v) =
     (if kind dt = KInt \<and> (2::int) ^ (8 * itemsize dt - 1) \<le> v mod 256 ^ itemsize dt
      then v mod 256 ^ itemsize dt - 256 ^ itemsize dt else v mod 256 ^ itemsize dt)"
proof -
  define u where "u = bit_pattern dt v"
  have iu: "int u = v mod 256 ^ itemsize dt"
    by (simp add: u_def bit_pattern_def)
  have "((2::nat) ^ (8 * itemsize dt - 1) \<le> u) = (int (2 ^ (8 * itemsize dt - 1)) \<le> int u)"
    by (simp only: of_nat_le_iff)
  also have "int (2 ^ (8 * itemsize dt - 1)) = 2 ^ (8 * itemsize dt - 1)"
    by simp
  finally have cond: "((2::nat) ^ (8 * itemsize dt - 1) \<le> u) = ((2::int) ^ (8 * itemsize dt - 1) \<le> int u)" .
  have "elem_value p dt (elem_bytes p dt v) =
          (if kind dt = KInt \<and> (2::nat) ^ (8 * itemsize dt - 1) \<le> u
           then int u - 2 ^ (8 * itemsize dt) else int u)"
    unfolding elem_value_def Let_def le_value_elem_bytes u_def ..
  also have "\<dots> = (if kind dt = KInt \<and> (2::int) ^ (8 * itemsize dt - 1) \<le> int u
           then int u - 256 ^ itemsize dt else int u)"
    unfolding cond pow256 ..
  finally show ?thesis unfolding iu .
qed

lemma elem_roundtrip:
  assumes "0 < itemsize dt" and "valid_elem dt v"
  shows "elem_value p dt (elem_bytes p dt v) = v"
proof -
  define h :: int where "h = 2 ^ (8 * itemsize dt - 1)"
  define F :: int where "F = 256 ^ itemsize dt"
  have "8 * itemsize dt = Suc (8 * itemsize dt - 1)" using assms(1) by simp
  then have "(2::int) ^ (8 * itemsize dt) = 2 * h"
    unfolding h_def by (metis power_Suc)
  then have full: "F = 2 * h" by (simp add: F_def pow256)
  have hpos: "0 < h" by (simp add: h_def)
  have ev: "elem_value p dt (elem_bytes p dt v) =
     (if kind dt = KInt \<and> h \<le> v mod F then v mod F - F else v mod F)"
    unfolding h_def F_def by (rule elem_value_elem_bytes)
  show ?thesis
  proof (cases "kind dt = KInt")
    case True
    with assms(2) have range: "- h \<le> v" "v < h"
      by (simp_all add: valid_elem_def h_def)
    show ?thesis
    proof (cases "0 \<le> v")
      case True
      with range full have "v mod F = v" by simp
      with range ev show ?thesis by simp
    next
      case False
      then have "v mod F = (v + F) mod F" by simp
      also have "\<dots> = v + F" using False range full by (intro mod_pos_pos_trivial) auto
      finally have "v mod F = v + F" .
      with range ev full \<open>kind dt = KInt\<close> show ?thesis by simp
    qed
  next
    case False
    have "(2::int) ^ (8 * itemsize dt) = F" by (simp add: F_def pow256)
    with False assms(2) have "0 \<le> v \<and> v < F"
      using full hpos by (auto simp: valid_elem_def split: if_splits)
    then have "v mod F = v" by simp
    with ev False show ?thesis by simp
  qed
qed

lemma length_concat_const:
  "\<forall>x\<in>set xs. length (f x) = m \<Longrightarrow> length (concat (map f xs)) = length xs * m"
  by (induction xs) auto

lemma length_flatten: "has_shape sh a \<Longrightarrow> length (flatten a) = prod_list sh"
proof (induction a arbitrary: sh)
  case (Item v)
  then show ?case by (cases sh) auto
next
  case (Row rs)
  then obtain n ns where sh: "sh = n # ns" by (cases sh) auto
  with Row.prems have len: "length rs = n" and each: "\<forall>r\<in>set rs. has_shape ns r"
    by (auto simp: list_all_iff)
  with Row.IH have "\<forall>r\<in>set rs. length (flatten r) = prod_list ns" by blast
  then have "length (concat (map flatten rs)) = length rs * prod_list ns"
    by (rule length_concat_const)
  with len sh show ?case by simp
qed

lemma build_flatten: "has_shape sh a \<Longrightarrow> build sh (flatten a) = a"
proof (induction a arbitrary: sh)
  case (Item v)
  then show ?case by (cases sh) auto
next
  case (Row rs)
  then obtain n ns where sh: "sh = n # ns" by (cases sh) auto
  with Row.prems have len: "length rs = n" and each: "\<forall>r\<in>set rs. has_shape ns r"
    by (auto simp: list_all_iff)
  from each have "\<forall>r\<in>set rs. length (flatten r) = prod_list ns"
    by (simp add: length_flatten)
  then have "chunks (prod_list ns) (length rs) (concat (map flatten rs)) = map flatten rs"
    by (rule chunks_concat)
  moreover have "map (build ns) (map flatten rs) = rs"
    using Row.IH each by (simp add: map_idI)
  ultimately show ?case using sh len by simp
qed

lemma valid_dtype_itemsize: "valid_dtype dt \<Longrightarrow> 0 < itemsize dt"
  by (auto simp: valid_dtype_def dtype_table_def)

lemma frombuffer_tobytes:
  assumes "wf_ndarray a"
  shows "frombuffer p (VBytes (tobytes p a)) (dtype a) =
           Inr \<lparr>dtype = dtype a, shape = [prod_list (shape a)],
                data = Row (map Item (flatten (data a)))\<rparr>"
proof -
  let ?xs = "flatten (data a)" and ?n = "itemsize (dtype a)"
  from assms have pos: "0 < ?n" and elems: "\<forall>v\<in>set ?xs. valid_elem (dtype a) v"
    and shp: "has_shape (shape a) (data a)"
    by (auto simp: wf_ndarray_def valid_dtype_itemsize list_all_iff)
  have len: "length (tobytes p a) = length ?xs * ?n"
    unfolding tobytes_def by (rule length_concat_const) (simp add: length_elem_bytes)
  have ch: "chunks ?n (length ?xs) (tobytes p a) = map (elem_bytes p (dtype a)) ?xs"
    unfolding tobytes_def by (rule chunks_concat) (simp add: length_elem_bytes)
  have "map (\<lambda>c. Item (elem_value p (dtype a) c)) (map (elem_bytes p (dtype a)) ?xs) = map Item ?xs"
    using elems pos by (simp add: elem_roundtrip)
  with ch len pos length_flatten [OF shp] show ?thesis
    by (simp add: frombuffer_def)
qed

lemma shape_arg_shape:
  "shape_arg (VList (map (\<lambda>n. VInt (int n)) sh)) = Some (map int sh)"
  by (induction sh) auto

lemma resolve_dims_shape: "resolve_dims (prod_list sh) (map int sh) = Inr sh"
proof -
  have "filter (\<lambda>d. d < 0) (map int sh) = []" by (simp add: filter_empty_conv)
  moreover have "map nat (map int sh) = sh" by (simp add: map_idI)
  ultimately show ?thesis by (simp add: resolve_dims_def)
qed

text \<open>A negative dimension is the inferred one: six items fit the shape \<^verbatim>\<open>[-2, 3]\<close>.\<close>

lemma resolve_dims_negative: "resolve_dims 6 [- 2, 3] = Inr [2, 3]"
  by (simp add: resolve_dims_def)

lemma reshape_flat:
  assumes "has_shape sh d"
  shows "reshape \<lparr>dtype = dt, shape = [prod_list sh], data = Row (map Item (flatten d))\<rparr>
           (VList (map (\<lambda>n. VInt (int n)) sh)) = Inr \<lparr>dtype = dt, shape = sh, data = d\<rparr>"
proof -
  have "concat (map flatten (map Item (flatten d))) = flatten d"
    by (induction "flatten d") (auto simp: comp_def)
  with build_flatten [OF assms] show ?thesis
    unfolding reshape_def shape_arg_shape by (simp add: resolve_dims_shape)
qed

lemma dtype_cases:
  assumes "valid_dtype dt"
  obtains k n ord where "dt = \<lparr>kind = k, itemsize = n, order = ord\<rparr>"
    "(k, n) \<in> set dtype_table" "(ord = NotApplicable) = (n = 1)"
  using assms by (cases dt) (auto simp: valid_dtype_def)

lemma parse_str_dtype:
  assumes "valid_dtype dt"
  shows "parse_dtype p (str_of (str_dtype p dt)) = Some dt"
proof -
  from assms obtain k n ord where dt: "dt = \<lparr>kind = k, itemsize = n, order = ord\<rparr>"
    and tab: "(k, n) \<in> set dtype_table" and ord: "(ord = NotApplicable) = (n = 1)"
    by (rule dtype_cases)
  from tab ord show ?thesis
    unfolding dt
    by (cases p; cases ord)
       (auto simp: dtype_table_def parse_dtype_def spellings_def str_dtype_def str_of_def
          dtype_name_def dtype_code_def size_digit_def bits_digits_def relative_order_def)
qed

text \<open>Unfolding the recursions over a numeral count.\<close>

lemma le_bytes_numeral [simp]:
  "le_bytes (numeral k) u = of_nat (u mod 256) # le_bytes (pred_numeral k) (u div 256)"
proof -
  have "numeral k = Suc (pred_numeral k)" by (rule numeral_eq_Suc)
  then show ?thesis by (simp only: le_bytes.simps)
qed

lemma chunks_numeral [simp]:
  "chunks sz (numeral k) xs = take sz xs # chunks sz (pred_numeral k) (drop sz xs)"
proof -
  have "numeral k = Suc (pred_numeral k)" by (rule numeral_eq_Suc)
  then show ?thesis by (simp only: chunks.simps)
qed

subsection \<open>The array codec: dictionary shape and round trip\<close>

lemma numpy_roundtrip:
  assumes "wf_ndarray a"
  shows "NUMPY_from_dict p (NUMPY_to_dict p a) = Inr a"
proof -
  from assms have vd: "valid_dtype (dtype a)" and shp: "has_shape (shape a) (data a)"
    by (simp_all add: wf_ndarray_def)
  have "reshape \<lparr>dtype = dtype a, shape = [prod_list (shape a)],
                  data = Row (map Item (flatten (data a)))\<rparr>
          (VList (map (\<lambda>n. VInt (int n)) (shape a)))
        = Inr \<lparr>dtype = dtype a, shape = shape a, data = data a\<rparr>"
    using shp by (rule reshape_flat)
  moreover have "NUMPY_to_dict p a ''bytes'' = Some (VBytes (tobytes p a))"
    and "NUMPY_to_dict p a ''dtype'' = Some (VStr (str_of (str_dtype p (dtype a))))"
    and "NUMPY_to_dict p a ''shape'' = Some (VList (map (\<lambda>n. VInt (int n)) (shape a)))"
    by (simp_all add: NUMPY_to_dict_def)
  ultimately show ?thesis
    by (simp add: NUMPY_from_dict_def parse_str_dtype [OF vd] frombuffer_tobytes [OF assms])
qed

lemma numpy_to_dict_keys: "dom (NUMPY_to_dict p a) = {''dtype'', ''shape'', ''bytes''}"
  by (auto simp: NUMPY_to_dict_def)

text \<open>
  Claim C2. For every well-formed numeric array \<open>a\<close>, \<^verbatim>\<open>NUMPY_CODEC.to_dict(a)\<close> is a
  mapping whose keys are exactly \<^verbatim>\<open>dtype\<close>, \<^verbatim>\<open>shape\<close> and \<^verbatim>\<open>bytes\<close>; its
  \<^verbatim>\<open>shape\<close> entry is the list of the dimensions of \<open>a\<close>, its \<^verbatim>\<open>dtype\<close> entry the
  string that names the element type; and \<^verbatim>\<open>NUMPY_CODEC.from_dict\<close> applied to that
  mapping returns an array with the dtype, the shape and the elements of \<open>a\<close>.
\<close>

theorem C2_numpy_to_dict_from_dict:
  assumes "wf_ndarray a"
  shows "dom (NUMPY_to_dict p a) = {''dtype'', ''shape'', ''bytes''} \<and>
         NUMPY_to_dict p a ''shape'' = Some (VList (map (\<lambda>n. VInt (int n)) (shape a))) \<and>
         NUMPY_to_dict p a ''dtype'' = Some (VStr (str_of (str_dtype p (dtype a)))) \<and>
         NUMPY_from_dict p (NUMPY_to_dict p a) = Inr a"
  using numpy_roundtrip [OF assms] numpy_to_dict_keys [of p a]
  by (simp add: NUMPY_to_dict_def)

lemma wf_example_array: "wf_ndarray example_array"
  by (simp add: wf_ndarray_def example_array_def int64_def valid_dtype_def dtype_table_def
      valid_elem_def)

text \<open>
  The scenario of the specification: the array \<^verbatim>\<open>[[1,2,3],[4,5,6]]\<close> of dtype
  \<^verbatim>\<open>int64\<close> has \<^verbatim>\<open>shape=[2,3]\<close> and \<^verbatim>\<open>dtype="int64"\<close> in its dictionary and
  is decoded to itself.
\<close>

theorem C2_numpy_to_dict_from_dict_witness:
  "wf_ndarray example_array \<and>
   dom (NUMPY_to_dict LittleEndian example_array) = {''dtype'', ''shape'', ''bytes''} \<and>
   NUMPY_to_dict LittleEndian example_array ''shape'' = Some (VList [VInt 2, VInt 3]) \<and>
   NUMPY_to_dict LittleEndian example_array ''dtype'' = Some (VStr (str_of ''int64'')) \<and>
   NUMPY_from_dict LittleEndian (NUMPY_to_dict LittleEndian example_array) = Inr example_array"
  using C2_numpy_to_dict_from_dict [OF wf_example_array, of LittleEndian] wf_example_array
  by (simp add: example_array_def int64_def str_dtype_def dtype_name_def bits_digits_def)

subsection \<open>The array payload: row-major order and byte order\<close>

lemma nth_concat_const:
  "\<forall>x\<in>set xss. length x = m \<Longrightarrow> i < length xss \<Longrightarrow> j < m \<Longrightarrow>
   concat xss ! (i * m + j) = xss ! i ! j"
proof (induction xss arbitrary: i)
  case Nil
  then show ?case by simp
next
  case (Cons x xss)
  show ?case
  proof (cases i)
    case 0
    with Cons.prems show ?thesis by (simp add: nth_append)
  next
    case (Suc i')
    with Cons.prems have "concat xss ! (i' * m + j) = xss ! i' ! j"
      by (intro Cons.IH) auto
    moreover have "Suc i' * m + j = length x + (i' * m + j)"
      using Cons.prems(1) by simp
    ultimately show ?thesis using Suc by (simp only: concat.simps nth_append_length_plus nth_Cons_Suc)
  qed
qed

lemma slice_concat_const:
  "\<forall>x\<in>set xs. length (f x) = n \<Longrightarrow> k < length xs \<Longrightarrow>
   take n (drop (n * k) (concat (map f xs))) = f (xs ! k)"
proof (induction xs arbitrary: k)
  case Nil
  then show ?case by simp
next
  case (Cons x xs)
  show ?case
  proof (cases k)
    case 0
    with Cons.prems show ?thesis by simp
  next
    case (Suc k')
    with Cons.prems have "take n (drop (n * k') (concat (map f xs))) = f (xs ! k')"
      by (intro Cons.IH) auto
    moreover have "drop (n * Suc k') (f x @ concat (map f xs)) = drop (n * k') (concat (map f xs))"
      using Cons.prems(1) by simp
    ultimately show ?thesis using Suc by simp
  qed
qed

lemma item_at_flatten:
  "has_shape sh a \<Longrightarrow> valid_index sh idx \<Longrightarrow>
   ravel sh idx < prod_list sh \<and> item_at a idx = Some (flatten a ! ravel sh idx)"
proof (induction a arbitrary: sh idx)
  case (Item v)
  then show ?case by (cases sh; cases idx) auto
next
  case (Row rs)
  from Row.prems obtain n ns i ix where sh: "sh = n # ns" and idx: "idx = i # ix"
    by (cases sh; cases idx) auto
  with Row.prems have len: "length rs = n" and each: "\<forall>r\<in>set rs. has_shape ns r"
    and i: "i < n" and ix: "valid_index ns ix"
    by (auto simp: list_all_iff)
  from len i have mem: "rs ! i \<in> set rs" by simp
  with each have "has_shape ns (rs ! i)" by blast
  from Row.IH [OF mem this ix]
  have j: "ravel ns ix < prod_list ns"
    and at: "item_at (rs ! i) ix = Some (flatten (rs ! i) ! ravel ns ix)"
    by simp_all
  have "\<forall>x\<in>set (map flatten rs). length x = prod_list ns"
    using each by (simp add: length_flatten)
  then have "concat (map flatten rs) ! (i * prod_list ns + ravel ns ix)
               = map flatten rs ! i ! ravel ns ix"
    using len i j by (intro nth_concat_const) auto
  also have "\<dots> = flatten (rs ! i) ! ravel ns ix"
    using len i by simp
  finally have nth: "flatten (Row rs) ! ravel sh idx = flatten (rs ! i) ! ravel ns ix"
    by (simp add: sh idx)
  have "i * prod_list ns + ravel ns ix < Suc i * prod_list ns"
    using j by simp
  also have "\<dots> \<le> n * prod_list ns"
    using i by (intro mult_le_mono1) simp
  finally have "ravel sh idx < prod_list sh" by (simp add: sh idx)
  with nth at len i show ?case by (simp add: sh idx)
qed

lemma tobytes_slice:
  assumes "has_shape (shape a) (data a)" and "valid_index (shape a) idx"
  shows "\<exists>v. item_at (data a) idx = Some v \<and>
           take (itemsize (dtype a)) (drop (itemsize (dtype a) * ravel (shape a) idx) (tobytes p a))
             = elem_bytes p (dtype a) v"
proof -
  from item_at_flatten [OF assms]
  have k: "ravel (shape a) idx < prod_list (shape a)"
    and at: "item_at (data a) idx = Some (flatten (data a) ! ravel (shape a) idx)"
    by simp_all
  from k have "ravel (shape a) idx < length (flatten (data a))"
    by (simp add: length_flatten [OF assms(1)])
  then have "take (itemsize (dtype a)) (drop (itemsize (dtype a) * ravel (shape a) idx) (tobytes p a))
      = elem_bytes p (dtype a) (flatten (data a) ! ravel (shape a) idx)"
    unfolding tobytes_def by (intro slice_concat_const) (simp_all add: length_elem_bytes)
  with at show ?thesis by simp
qed

text \<open>
  Claim C3, as amended. For every well-formed numeric array, the \<^verbatim>\<open>bytes\<close> payload of
  \<^verbatim>\<open>NUMPY_CODEC.to_dict\<close> lays the elements out flat in row-major order: the element
  at a valid multi-index occupies the item-size bytes at the row-major position of that
  index. Each element is stored in the byte order of the array's dtype, which is the
  producing platform's native order unless the dtype is byte-swapped: least significant
  byte first exactly when that order is little-endian, most significant byte first
  otherwise. \<^verbatim>\<open>NUMPY_CODEC.from_dict\<close> reads the payload in the byte order that the
  dtype string denotes on the decoding platform, so on the platform that produced the
  dictionary it returns the array.
\<close>

theorem C3_payload_layout:
  assumes "wf_ndarray a" and "valid_index (shape a) idx"
  shows "NUMPY_to_dict p a ''bytes'' = Some (VBytes (tobytes p a)) \<and>
         (\<exists>v. item_at (data a) idx = Some v \<and>
            take (itemsize (dtype a)) (drop (itemsize (dtype a) * ravel (shape a) idx) (tobytes p a))
              = (if (order (dtype a) = Swapped) = (p = BigEndian)
                 then le_bytes (itemsize (dtype a)) (bit_pattern (dtype a) v)
                 else rev (le_bytes (itemsize (dtype a)) (bit_pattern (dtype a) v)))) \<and>
         NUMPY_from_dict p (NUMPY_to_dict p a) = Inr a"
proof -
  from assms(1) have shp: "has_shape (shape a) (data a)" by (simp add: wf_ndarray_def)
  have "(dtype_endian p (dtype a) = LittleEndian) = ((order (dtype a) = Swapped) = (p = BigEndian))"
    by (cases p) (auto simp: dtype_endian_def)
  then have "elem_bytes p (dtype a) v =
      (if (order (dtype a) = Swapped) = (p = BigEndian)
       then le_bytes (itemsize (dtype a)) (bit_pattern (dtype a) v)
       else rev (le_bytes (itemsize (dtype a)) (bit_pattern (dtype a) v)))" for v
    by (simp add: elem_bytes_def)
  with tobytes_slice [OF shp assms(2), of p] numpy_roundtrip [OF assms(1), of p]
  show ?thesis by (simp add: NUMPY_to_dict_def)
qed

text \<open>
  The element at index \<^verbatim>\<open>[1, 2]\<close> of the two-by-three example is at position 5; its
  eight bytes are little-endian on a little-endian platform and big-endian on a
  big-endian one.
\<close>

theorem C3_payload_layout_witness:
  "wf_ndarray example_array \<and> valid_index (shape example_array) [1, 2] \<and>
   ravel (shape example_array) [1, 2] = 5 \<and>
   item_at (data example_array) [1, 2] = Some 6 \<and>
   take 8 (drop (8 * 5) (tobytes LittleEndian example_array)) = [6, 0, 0, 0, 0, 0, 0, 0] \<and>
   take 8 (drop (8 * 5) (tobytes BigEndian example_array)) = [0, 0, 0, 0, 0, 0, 0, 6] \<and>
   NUMPY_from_dict BigEndian (NUMPY_to_dict BigEndian example_array) = Inr example_array"
proof -
  have idx: "valid_index (shape example_array) [1, 2]"
    by (simp add: example_array_def)
  have at: "item_at (data example_array) [1, 2] = Some 6"
    by (simp add: example_array_def)
  have rv: "ravel (shape example_array) [1, 2] = 5"
    by (simp add: example_array_def)
  have sz: "itemsize (dtype example_array) = 8" and ord: "order (dtype example_array) = Native"
    by (simp_all add: example_array_def int64_def)
  have bp: "bit_pattern (dtype example_array) 6 = 6"
    by (simp add: bit_pattern_def sz)
  have little: "take 8 (drop (8 * 5) (tobytes LittleEndian example_array)) = [6, 0, 0, 0, 0, 0, 0, 0]"
  proof -
    from C3_payload_layout [OF wf_example_array idx, of LittleEndian]
    obtain v where v: "item_at (data example_array) [1, 2] = Some v"
      and sl: "take (itemsize (dtype example_array))
                 (drop (itemsize (dtype example_array) * ravel (shape example_array) [1, 2])
                    (tobytes LittleEndian example_array))
               = (if (order (dtype example_array) = Swapped) = (LittleEndian = BigEndian)
                  then le_bytes (itemsize (dtype example_array)) (bit_pattern (dtype example_array) v)
                  else rev (le_bytes (itemsize (dtype example_array)) (bit_pattern (dtype example_array) v)))"
      by blast
    from v at have "v = 6" by simp
    with sl [unfolded rv sz ord] bp show ?thesis by simp
  qed
  have big: "take 8 (drop (8 * 5) (tobytes BigEndian example_array)) = [0, 0, 0, 0, 0, 0, 0, 6]"
  proof -
    from C3_payload_layout [OF wf_example_array idx, of BigEndian]
    obtain v where v: "item_at (data example_array) [1, 2] = Some v"
      and sl: "take (itemsize (dtype example_array))
                 (drop (itemsize (dtype example_array) * ravel (shape example_array) [1, 2])
                    (tobytes BigEndian example_array))
               = (if (order (dtype example_array) = Swapped) = (BigEndian = BigEndian)
                  then le_bytes (itemsize (dtype example_array)) (bit_pattern (dtype example_array) v)
                  else rev (le_bytes (itemsize (dtype example_array)) (bit_pattern (dtype example_array) v)))"
      by blast
    from v at have "v = 6" by simp
    with sl [unfolded rv sz ord] bp show ?thesis by simp
  qed
  from C3_payload_layout [OF wf_example_array idx, of BigEndian]
  have "NUMPY_from_dict BigEndian (NUMPY_to_dict BigEndian example_array) = Inr example_array"
    by blast
  with little big show ?thesis
    using wf_example_array idx at rv by simp
qed

lemma tobytes_int32_swapped: "tobytes LittleEndian (int32_one Swapped) = [0, 0, 0, 1]"
  by (simp add: tobytes_def int32_one_def elem_bytes_def dtype_endian_def bit_pattern_def)


lemma tobytes_int32_big: "tobytes BigEndian (int32_one Native) = [0, 0, 0, 1]"
  by (simp add: tobytes_def int32_one_def elem_bytes_def dtype_endian_def bit_pattern_def)

lemma tobytes_int32_little: "tobytes LittleEndian (int32_one Native) = [1, 0, 0, 0]"
  by (simp add: tobytes_def int32_one_def elem_bytes_def dtype_endian_def bit_pattern_def)

lemma little_endian_payload_int32: "little_endian_payload (int32_one ord) = [1, 0, 0, 0]"
  by (simp add: little_endian_payload_def int32_one_def bit_pattern_def)

lemma str_dtype_native:
  "order dt \<noteq> Swapped \<Longrightarrow> str_dtype p dt = dtype_name (kind dt) (itemsize dt)"
  by (simp add: str_dtype_def)

lemma decode_int32_cross_platform: "NUMPY_from_dict LittleEndian (NUMPY_to_dict BigEndian (int32_one Native))
     = Inr \<lparr>dtype = \<lparr>kind = KInt, itemsize = 4, order = Native\<rparr>, shape = [1],
            data = Row [Item 16777216]\<rparr>"
proof -
  let ?dt = "\<lparr>kind = KInt, itemsize = 4, order = Native\<rparr>"
  have "valid_dtype ?dt" by (simp add: valid_dtype_def dtype_table_def)
  then have "parse_dtype LittleEndian (str_of (str_dtype LittleEndian ?dt)) = Some ?dt"
    by (rule parse_str_dtype)
  moreover have "str_dtype BigEndian ?dt = str_dtype LittleEndian ?dt"
    by (simp add: str_dtype_native)
  ultimately have dt: "np_dtype LittleEndian (VStr (str_of (str_dtype BigEndian ?dt))) = Inr ?dt"
    by simp
  have fb: "frombuffer LittleEndian (VBytes [0, 0, 0, 1]) ?dt
          = Inr \<lparr>dtype = ?dt, shape = [1], data = Row [Item 16777216]\<rparr>"
    by (simp add: frombuffer_def elem_value_def dtype_endian_def)
  have rs: "reshape \<lparr>dtype = ?dt, shape = [1], data = Row [Item 16777216]\<rparr> (VList [VInt 1])
          = Inr \<lparr>dtype = ?dt, shape = [1], data = Row [Item 16777216]\<rparr>"
    by (simp add: reshape_def resolve_dims_def)
  show ?thesis
    unfolding NUMPY_from_dict_def NUMPY_to_dict_def
    using dt fb rs tobytes_int32_big by (simp add: int32_one_def del: np_dtype.simps)
qed

text \<open>
  The claim as stated fails. A byte-swapped \<^verbatim>\<open>int32\<close> array on a little-endian
  platform, and a native one on a big-endian platform, are written most significant byte
  first; the payload of the same native array differs between the two platforms, and
  decoding the big-endian platform's dictionary on a little-endian platform yields the
  element 16777216 instead of 1.
\<close>

theorem C3_little_endian_counterexample:
  "tobytes LittleEndian (int32_one Swapped) = [0, 0, 0, 1] \<and>
   tobytes LittleEndian (int32_one Swapped) \<noteq> little_endian_payload (int32_one Swapped) \<and>
   tobytes BigEndian (int32_one Native) \<noteq> little_endian_payload (int32_one Native) \<and>
   NUMPY_to_dict BigEndian (int32_one Native) ''bytes''
     \<noteq> NUMPY_to_dict LittleEndian (int32_one Native) ''bytes'' \<and>
   NUMPY_from_dict LittleEndian (NUMPY_to_dict BigEndian (int32_one Native))
     = Inr \<lparr>dtype = \<lparr>kind = KInt, itemsize = 4, order = Native\<rparr>, shape = [1],
            data = Row [Item 16777216]\<rparr>"
  using decode_int32_cross_platform
  by (simp add: tobytes_int32_swapped tobytes_int32_big tobytes_int32_little
      little_endian_payload_int32 NUMPY_to_dict_def)

subsection \<open>The store: copies, pops and the frame\<close>

lemma dict_copy_eq:
  "dict_copy a s = (length (dicts s), s\<lparr>dicts := dicts s @ [dicts s ! a]\<rparr>)"
  by (simp add: dict_copy_def)

lemma dict_pop_last:
  "dicts s = xs @ [d] \<Longrightarrow>
   dict_pop (length xs) k s =
     (case d k of None \<Rightarrow> (Inl (KeyError k), s)
      | Some v \<Rightarrow> (Inr v, s\<lparr>dicts := xs @ [d(k := None)]\<rparr>))"
  by (cases "d k") (simp_all add: dict_pop_def)

lemma dict_del_last:
  "dicts s = xs @ [d] \<Longrightarrow>
   dict_del (length xs) k s =
     (case d k of None \<Rightarrow> (Inl (KeyError k), s)
      | Some v \<Rightarrow> (Inr (), s\<lparr>dicts := xs @ [d(k := None)]\<rparr>))"
  by (cases "d k") (simp_all add: dict_del_def)

lemma default_from_dict_present:
  assumes "(dicts s ! a) ''__module__'' = Some m" and "(dicts s ! a) ''__class__'' = Some q"
    and "(dicts s ! a) '':is_custom:'' = Some c"
  shows "default_from_dict get_class construct a s =
     (case get_class m q of
        Inl e \<Rightarrow> Inl e
      | Inr cls \<Rightarrow>
          construct cls
            ((dicts s ! a)(''__module__'' := None, ''__class__'' := None, '':is_custom:'' := None)),
      s\<lparr>dicts := dicts s @
          [(dicts s ! a)(''__module__'' := None, ''__class__'' := None, '':is_custom:'' := None)],
        resolver_calls := resolver_calls s @ [(m, q)]\<rparr>)"
proof -
  let ?d = "dicts s ! a" and ?xs = "dicts s"
  let ?d2 = "?d(''__module__'' := None)"
  let ?d3 = "?d2(''__class__'' := None)"
  let ?d4 = "?d3('':is_custom:'' := None)"
  let ?s1 = "s\<lparr>dicts := ?xs @ [?d]\<rparr>"
  let ?s2 = "s\<lparr>dicts := ?xs @ [?d2]\<rparr>"
  let ?s3 = "s\<lparr>dicts := ?xs @ [?d3]\<rparr>"
  let ?s4 = "s\<lparr>dicts := ?xs @ [?d4]\<rparr>"
  have p1: "dict_pop (length ?xs) ''__module__'' ?s1 = (Inr m, ?s2)"
    using dict_pop_last [of ?s1 ?xs ?d "''__module__''"] assms(1) by simp
  have p2: "dict_pop (length ?xs) ''__class__'' ?s2 = (Inr q, ?s3)"
    using dict_pop_last [of ?s2 ?xs ?d2 "''__class__''"] assms(2) by simp
  have p3: "dict_del (length ?xs) '':is_custom:'' ?s3 = (Inr (), ?s4)"
    using dict_del_last [of ?s3 ?xs ?d3 "'':is_custom:''"] assms(3) by simp
  show ?thesis
    unfolding default_from_dict_def dict_copy_eq
    by (simp add: p1 p2 p3 call_get_class_def split: sum.splits)
qed

lemma default_from_dict_frame:
  "\<exists>d. dicts (snd (default_from_dict get_class construct a s)) = dicts s @ [d]"
proof -
  let ?d = "dicts s ! a" and ?xs = "dicts s"
  let ?s1 = "s\<lparr>dicts := ?xs @ [?d]\<rparr>"
  show ?thesis
  proof (cases "?d ''__module__''")
    case None
    then have "dict_pop (length ?xs) ''__module__'' ?s1 = (Inl (KeyError ''__module__''), ?s1)"
      using dict_pop_last [of ?s1 ?xs ?d "''__module__''"] by simp
    then show ?thesis
      unfolding default_from_dict_def dict_copy_eq by simp
  next
    case m: (Some m)
    let ?d2 = "?d(''__module__'' := None)"
    let ?s2 = "s\<lparr>dicts := ?xs @ [?d2]\<rparr>"
    have p1: "dict_pop (length ?xs) ''__module__'' ?s1 = (Inr m, ?s2)"
      using dict_pop_last [of ?s1 ?xs ?d "''__module__''"] m by simp
    show ?thesis
    proof (cases "?d2 ''__class__''")
      case None
      then have "dict_pop (length ?xs) ''__class__'' ?s2 = (Inl (KeyError ''__class__''), ?s2)"
        using dict_pop_last [of ?s2 ?xs ?d2 "''__class__''"] by simp
      with p1 show ?thesis
        unfolding default_from_dict_def dict_copy_eq by simp
    next
      case q: (Some q)
      let ?d3 = "?d2(''__class__'' := None)"
      let ?s3 = "s\<lparr>dicts := ?xs @ [?d3]\<rparr>"
      have p2: "dict_pop (length ?xs) ''__class__'' ?s2 = (Inr q, ?s3)"
        using dict_pop_last [of ?s2 ?xs ?d2 "''__class__''"] q by simp
      show ?thesis
      proof (cases "?d3 '':is_custom:''")
        case None
        then have "dict_del (length ?xs) '':is_custom:'' ?s3 = (Inl (KeyError '':is_custom:''), ?s3)"
          using dict_del_last [of ?s3 ?xs ?d3 "'':is_custom:''"] by simp
        with p1 p2 show ?thesis
          unfolding default_from_dict_def dict_copy_eq by simp
      next
        case (Some c)
        let ?d4 = "?d3('':is_custom:'' := None)"
        let ?s4 = "s\<lparr>dicts := ?xs @ [?d4]\<rparr>"
        have p3: "dict_del (length ?xs) '':is_custom:'' ?s3 = (Inr (), ?s4)"
          using dict_del_last [of ?s3 ?xs ?d3 "'':is_custom:''"] Some by simp
        show ?thesis
          unfolding default_from_dict_def dict_copy_eq
          by (simp add: p1 p2 p3 call_get_class_def split: sum.splits)
      qed
    qed
  qed
qed

lemma inherited_is_my_dict_present:
  assumes "(dicts s ! a) ''__module__'' = Some m" and "(dicts s ! a) ''__class__'' = Some q"
  shows "inherited_is_my_dict get_class a cls s =
     (case get_class m q of
        Inl e \<Rightarrow> Inl e
      | Inr stored \<Rightarrow>
          (case mro stored of None \<Rightarrow> Inl TypeError | Some l \<Rightarrow> Inr (cls \<in> set l)),
      s\<lparr>dicts := dicts s @ [(dicts s ! a)(''__module__'' := None, ''__class__'' := None)],
        resolver_calls := resolver_calls s @ [(m, q)]\<rparr>)"
proof -
  let ?d = "dicts s ! a" and ?xs = "dicts s"
  let ?d2 = "?d(''__module__'' := None)"
  let ?d3 = "?d2(''__class__'' := None)"
  let ?s1 = "s\<lparr>dicts := ?xs @ [?d]\<rparr>"
  let ?s2 = "s\<lparr>dicts := ?xs @ [?d2]\<rparr>"
  let ?s3 = "s\<lparr>dicts := ?xs @ [?d3]\<rparr>"
  have p1: "dict_pop (length ?xs) ''__module__'' ?s1 = (Inr m, ?s2)"
    using dict_pop_last [of ?s1 ?xs ?d "''__module__''"] assms(1) by simp
  have p2: "dict_pop (length ?xs) ''__class__'' ?s2 = (Inr q, ?s3)"
    using dict_pop_last [of ?s2 ?xs ?d2 "''__class__''"] assms(2) by simp
  show ?thesis
    unfolding inherited_is_my_dict_def dict_copy_eq
    using assms by (simp add: p1 p2 call_get_class_def split: sum.splits option.splits)
qed

lemma inherited_is_my_dict_absent:
  "(dicts s ! a) ''__module__'' = None \<or> (dicts s ! a) ''__class__'' = None \<Longrightarrow>
   inherited_is_my_dict get_class a cls s = (Inr False, s)"
  by (auto simp: inherited_is_my_dict_def)

lemma inherited_is_my_dict_frame:
  "take (length (dicts s)) (dicts (snd (inherited_is_my_dict get_class a cls s))) = dicts s"
proof (cases "(dicts s ! a) ''__module__'' = None \<or> (dicts s ! a) ''__class__'' = None")
  case True
  then show ?thesis by (simp add: inherited_is_my_dict_absent)
next
  case False
  then obtain m q where "(dicts s ! a) ''__module__'' = Some m" "(dicts s ! a) ''__class__'' = Some q"
    by auto
  then show ?thesis by (simp add: inherited_is_my_dict_present)
qed

subsection \<open>The linearisation contains every ancestor\<close>

lemma c3_merge_set:
  "c3_merge seqs = Some r \<Longrightarrow> set r = \<Union> (set ` set seqs)"
proof (induction seqs arbitrary: r rule: c3_merge.induct)
  case (1 seqs)
  define ne where "ne = filter (\<lambda>s. s \<noteq> []) seqs"
  have un: "\<Union> (set ` set ne) = \<Union> (set ` set seqs)"
    by (auto simp: ne_def)
  show ?case
  proof (cases "ne = []")
    case True
    with "1.prems" have "r = []"
      by (simp add: c3_merge.simps [of seqs] ne_def)
    moreover from True have "\<Union> (set ` set ne) = {}" by simp
    ultimately show ?thesis using un by simp
  next
    case False
    with "1.prems" obtain c r' where fh: "find_head ne ne = Some c"
      and r': "c3_merge (map (drop_head c) ne) = Some r'" and r: "r = c # r'"
      by (auto simp: c3_merge.simps [of seqs] ne_def Let_def split: option.splits)
    have ih: "set r' = \<Union> (set ` set (map (drop_head c) ne))"
      using "1.IH" [OF ne_def False fh r'] .
    have nonempty: "\<forall>s\<in>set ne. s \<noteq> []" by (simp add: ne_def)
    from fh obtain s0 where s0: "s0 \<in> set ne" "hd s0 = c"
      using find_head_is_head by force
    have "insert c (\<Union> (set ` set (map (drop_head c) ne))) = \<Union> (set ` set ne)"
    proof (intro equalityI subsetI)
      fix x assume "x \<in> insert c (\<Union> (set ` set (map (drop_head c) ne)))"
      then consider "x = c" | s where "s \<in> set ne" "x \<in> set (drop_head c s)" by auto
      then show "x \<in> \<Union> (set ` set ne)"
      proof cases
        case 1
        with s0 nonempty show ?thesis by (metis UN_I hd_in_set)
      next
        case 2
        then have "x \<in> set s"
          using set_drop_head_subset by fastforce
        with 2 show ?thesis by auto
      qed
    next
      fix x assume "x \<in> \<Union> (set ` set ne)"
      then obtain s where s: "s \<in> set ne" "x \<in> set s" by auto
      with nonempty have "s \<noteq> []" by simp
      then have "x = hd s \<or> x \<in> set (tl s)" using s(2) by (cases s) auto
      then have "x = c \<or> x \<in> set (drop_head c s)"
        using s(2) by (auto simp: drop_head_def)
      with s(1) show "x \<in> insert c (\<Union> (set ` set (map (drop_head c) ne)))" by auto
    qed
    with ih r un show ?thesis by simp
  qed
qed

lemma those_map_Some:
  "those (map f xs) = Some ys \<Longrightarrow>
   length ys = length xs \<and> (\<forall>i<length xs. f (xs ! i) = Some (ys ! i))"
proof (induction xs arbitrary: ys)
  case Nil
  then show ?case by simp
next
  case (Cons x xs)
  then obtain y ys' where y: "f x = Some y" and ys': "those (map f xs) = Some ys'"
    and ys: "ys = y # ys'"
    by (auto split: option.splits)
  from Cons.IH [OF ys'] y ys show ?case
    by (auto simp: nth_Cons split: nat.splits)
qed

lemma mro_contains_ancestors:
  "mro c = Some l \<Longrightarrow> is_subclass c a \<Longrightarrow> a \<in> set l"
proof (induction c arbitrary: l)
  case (PyClass m n bs)
  from PyClass.prems(1) obtain ls r where ls: "those (map mro bs) = Some ls"
    and r: "c3_merge (ls @ [bs]) = Some r" and l: "l = PyClass m n bs # r"
    by (auto split: option.splits)
  have setr: "set r = \<Union> (set ` set (ls @ [bs]))"
    using r by (rule c3_merge_set)
  show ?case
  proof (cases "PyClass m n bs = a")
    case True
    with l show ?thesis by simp
  next
    case False
    with PyClass.prems(2) obtain b where b: "b \<in> set bs" "is_subclass b a"
      by (auto simp: list_ex_iff)
    then obtain i where i: "i < length bs" "bs ! i = b"
      by (auto simp: in_set_conv_nth)
    with those_map_Some [OF ls] have lsi: "length ls = length bs" "mro b = Some (ls ! i)"
      by auto
    from PyClass.IH [OF b(1) lsi(2) b(2)] have "a \<in> set (ls ! i)" .
    moreover from i lsi have "ls ! i \<in> set ls" by simp
    ultimately have "a \<in> set r" using setr by auto
    with l show ?thesis by simp
  qed
qed

text \<open>The linearisations of the example classes.\<close>

lemma mro_object: "mro object_class = Some [object_class]"
  by (simp add: object_class_def c3_merge.simps)

lemma mro_BaseModel: "mro BaseModel_class = Some [BaseModel_class, object_class]"
  using mro_object
  by (simp add: BaseModel_class_def object_class_def c3_merge.simps drop_head_def)

lemma mro_SettingsBaseModel:
  "mro SettingsBaseModel_class = Some [SettingsBaseModel_class, BaseModel_class, object_class]"
  using mro_BaseModel
  by (simp add: SettingsBaseModel_class_def BaseModel_class_def object_class_def c3_merge.simps
      drop_head_def)

lemma mro_ThermoSettings:
  "mro ThermoSettings_class =
     Some [ThermoSettings_class, SettingsBaseModel_class, BaseModel_class, object_class]"
  using mro_SettingsBaseModel
  by (simp add: ThermoSettings_class_def SettingsBaseModel_class_def BaseModel_class_def
      object_class_def c3_merge.simps drop_head_def)

lemma settings_store_keys:
  "(dicts settings_store ! 0) ''__module__'' = Some (VStr (str_of ''gufe.settings.models''))"
  "(dicts settings_store ! 0) ''__class__'' = Some (VStr (str_of ''ThermoSettings''))"
  "(dicts settings_store ! 0) '':is_custom:'' = Some (VBool True)"
  by (simp_all add: settings_store_def settings_dict_def)

lemma example_get_class_ThermoSettings:
  "example_get_class (VStr (str_of ''gufe.settings.models'')) (VStr (str_of ''ThermoSettings''))
     = Inr ThermoSettings_class"
  by (simp add: example_get_class_def)

lemma settings_matches:
  "fst (inherited_is_my_dict example_get_class 0 SettingsBaseModel_class settings_store) = Inr True"
  by (simp add: inherited_is_my_dict_present [OF settings_store_keys(1,2)]
      example_get_class_ThermoSettings mro_ThermoSettings)

lemma str_of_inject: "str_of s = str_of t \<longleftrightarrow> s = t"
proof -
  have "inj (of_char :: char \<Rightarrow> nat)" by (rule injI) simp
  then show ?thesis unfolding str_of_def by (simp add: inj_map_eq_map)
qed

subsection \<open>Decoding a settings dictionary\<close>

text \<open>
  Claim C4. For every mapping \<open>d\<close> that contains \<^verbatim>\<open>__module__\<close>, \<^verbatim>\<open>__class__\<close> and
  the \<^verbatim>\<open>:is_custom:\<close> marker, \<^verbatim>\<open>default_from_dict\<close> calls the class resolver once, on
  \<^verbatim>\<open>d['__module__']\<close> and \<^verbatim>\<open>d['__class__']\<close>, and, when the resolver returns a
  class, constructs that class from keyword arguments that are \<open>d\<close> without exactly those
  three keys: every other key of \<open>d\<close> is passed with its value unchanged. When the resolver
  raises, its exception is the result.
\<close>

theorem C4_default_from_dict:
  assumes "(dicts s ! a) ''__module__'' = Some m" and "(dicts s ! a) ''__class__'' = Some q"
    and "(dicts s ! a) '':is_custom:'' = Some c"
  shows "\<exists>kwargs.
           default_from_dict get_class construct a s =
             (case get_class m q of Inl e \<Rightarrow> Inl e | Inr cls \<Rightarrow> construct cls kwargs,
              s\<lparr>dicts := dicts s @ [kwargs],
                resolver_calls := resolver_calls s @ [(m, q)]\<rparr>) \<and>
           dom kwargs = dom (dicts s ! a) - {''__module__'', ''__class__'', '':is_custom:''} \<and>
           (\<forall>k. k \<notin> {''__module__'', ''__class__'', '':is_custom:''} \<longrightarrow> kwargs k = (dicts s ! a) k)"
proof (intro exI conjI)
  show "default_from_dict get_class construct a s =
      (case get_class m q of Inl e \<Rightarrow> Inl e
       | Inr cls \<Rightarrow> construct cls
           ((dicts s ! a)(''__module__'' := None, ''__class__'' := None, '':is_custom:'' := None)),
       s\<lparr>dicts := dicts s @
           [(dicts s ! a)(''__module__'' := None, ''__class__'' := None, '':is_custom:'' := None)],
         resolver_calls := resolver_calls s @ [(m, q)]\<rparr>)"
    using assms by (rule default_from_dict_present)
  show "dom ((dicts s ! a)(''__module__'' := None, ''__class__'' := None, '':is_custom:'' := None))
      = dom (dicts s ! a) - {''__module__'', ''__class__'', '':is_custom:''}"
    by auto
  show "\<forall>k. k \<notin> {''__module__'', ''__class__'', '':is_custom:''} \<longrightarrow>
      ((dicts s ! a)(''__module__'' := None, ''__class__'' := None, '':is_custom:'' := None)) k
        = (dicts s ! a) k"
    by simp
qed

text \<open>
  Decoding the example settings dictionary constructs \<^verbatim>\<open>ThermoSettings\<close> from the two
  fields \<^verbatim>\<open>temperature\<close> and \<^verbatim>\<open>pressure\<close>.
\<close>

theorem C4_default_from_dict_witness:
  "\<exists>kwargs.
     default_from_dict example_get_class example_construct 0 settings_store =
       (Inr (ThermoSettings_class, kwargs),
        \<lparr>dicts = [settings_dict, kwargs],
         resolver_calls =
           [(VStr (str_of ''gufe.settings.models''), VStr (str_of ''ThermoSettings''))]\<rparr>) \<and>
     dom kwargs = {''temperature'', ''pressure''} \<and>
     kwargs ''temperature'' = Some (VFloat 0x4072A33333333333) \<and>
     kwargs ''pressure'' = Some VNone"
proof -
  from C4_default_from_dict [OF settings_store_keys, of example_get_class example_construct]
  obtain kwargs where
    r: "default_from_dict example_get_class example_construct 0 settings_store =
       (case example_get_class (VStr (str_of ''gufe.settings.models'')) (VStr (str_of ''ThermoSettings'')) of
          Inl e \<Rightarrow> Inl e | Inr cls \<Rightarrow> example_construct cls kwargs,
        settings_store\<lparr>dicts := dicts settings_store @ [kwargs],
          resolver_calls := resolver_calls settings_store @
            [(VStr (str_of ''gufe.settings.models''), VStr (str_of ''ThermoSettings''))]\<rparr>)"
    and d: "dom kwargs = dom (dicts settings_store ! 0) - {''__module__'', ''__class__'', '':is_custom:''}"
    and k: "\<forall>k. k \<notin> {''__module__'', ''__class__'', '':is_custom:''} \<longrightarrow>
              kwargs k = (dicts settings_store ! 0) k"
    by blast
  from r have "default_from_dict example_get_class example_construct 0 settings_store =
       (Inr (ThermoSettings_class, kwargs),
        \<lparr>dicts = [settings_dict, kwargs],
         resolver_calls =
           [(VStr (str_of ''gufe.settings.models''), VStr (str_of ''ThermoSettings''))]\<rparr>)"
    by (simp add: example_get_class_ThermoSettings example_construct_def settings_store_def)
  moreover from d have "dom kwargs = {''temperature'', ''pressure''}"
    by (auto simp: settings_store_def settings_dict_def split: if_splits)
  moreover from k have "kwargs ''temperature'' = Some (VFloat 0x4072A33333333333)"
    and "kwargs ''pressure'' = Some VNone"
    by (simp_all add: settings_store_def settings_dict_def)
  ultimately show ?thesis by blast
qed

subsection \<open>Subtypes of the settings base type\<close>

text \<open>
  Claim C5. For every dictionary that contains \<^verbatim>\<open>__module__\<close> and \<^verbatim>\<open>__class__\<close> keys
  which the resolver resolves to a class that is a subtype of the settings base type (a
  strict subtype, or the base type itself), the settings codec's predicate
  \<^verbatim>\<open>inherited_is_my_dict\<close> with \<^verbatim>\<open>cls=SettingsBaseModel\<close> returns true.
\<close>

theorem C5_subtype_is_my_dict:
  assumes "(dicts s ! a) ''__module__'' = Some m" and "(dicts s ! a) ''__class__'' = Some q"
    and "get_class m q = Inr stored" and "mro stored \<noteq> None"
    and "is_subclass stored SettingsBaseModel"
  shows "fst (inherited_is_my_dict get_class a SettingsBaseModel s) = Inr True"
proof -
  from assms(4) obtain l where l: "mro stored = Some l" by auto
  from mro_contains_ancestors [OF l assms(5)] have "SettingsBaseModel \<in> set l" .
  with l assms(3) show ?thesis
    by (simp add: inherited_is_my_dict_present [OF assms(1,2)])
qed

text \<open>
  \<^verbatim>\<open>ThermoSettings\<close> is a strict subtype of \<^verbatim>\<open>SettingsBaseModel\<close>, and the example
  dictionary that names it is accepted.
\<close>

theorem C5_subtype_is_my_dict_witness:
  "is_subclass ThermoSettings_class SettingsBaseModel_class \<and>
   ThermoSettings_class \<noteq> SettingsBaseModel_class \<and>
   mro ThermoSettings_class \<noteq> None \<and>
   fst (inherited_is_my_dict example_get_class 0 SettingsBaseModel_class settings_store) = Inr True"
proof -
  have sub: "is_subclass ThermoSettings_class SettingsBaseModel_class"
    by (simp add: ThermoSettings_class_def SettingsBaseModel_class_def)
  have ne: "ThermoSettings_class \<noteq> SettingsBaseModel_class"
    by (simp add: ThermoSettings_class_def SettingsBaseModel_class_def)
  have ex: "mro ThermoSettings_class \<noteq> None" by (simp add: mro_ThermoSettings)
  from C5_subtype_is_my_dict
    [where s = settings_store and a = 0 and get_class = example_get_class
       and m = "VStr (str_of ''gufe.settings.models'')" and q = "VStr (str_of ''ThermoSettings'')"
       and stored = ThermoSettings_class and SettingsBaseModel = SettingsBaseModel_class,
     OF settings_store_keys(1,2) example_get_class_ThermoSettings ex sub]
  show ?thesis using sub ne ex by simp
qed

subsection \<open>The quantity codec\<close>

lemma py_mul_multiplicative:
  assumes "is_magnitude mag" and "offset_units reg un = [] \<or> is_number_one mag"
  shows "py_mul reg mag (VUnit un) = Inr (VQuantity mag un)"
proof (cases "is_number_one mag")
  case True
  with assms(1) show ?thesis by simp
next
  case False
  with assms(2) have none: "offset_units reg un = []" by simp
  then have "ok_for_muldiv reg un" by (simp add: ok_for_muldiv_def)
  with assms(1) False none show ?thesis by simp
qed

text \<open>
  Claim C6, as amended. For every quantity \<open>q\<close> with magnitude \<open>m\<close> (a number or a numeric
  array) and unit \<open>u\<close>, \<^verbatim>\<open>OPENFF_QUANTITY_CODEC.to_dict(q)\<close> is a mapping with
  \<^verbatim>\<open>magnitude\<close> = \<open>m\<close>, the unit under \<^verbatim>\<open>unit\<close>, \<^verbatim>\<open>:is_custom:\<close> = true and
  \<^verbatim>\<open>pint_unit_registry\<close> = \<^verbatim>\<open>"openff_units"\<close>, and \<^verbatim>\<open>is_openff_quantity_dict\<close>
  accepts it. When \<open>u\<close> holds no offset unit of the registry, or \<open>m\<close> is the number 1,
  \<^verbatim>\<open>from_dict\<close>, the product of the magnitude and the unit, is a quantity with the
  magnitude and the unit of \<open>q\<close>.
\<close>

theorem C6_multiplicative_quantity_roundtrip:
  assumes "is_magnitude mag" and "offset_units reg un = [] \<or> is_number_one mag"
  shows "\<exists>d. OPENFF_QUANTITY_to_dict (VQuantity mag un) = Inr d \<and>
             d ''magnitude'' = Some mag \<and>
             d ''unit'' = Some (VUnit un) \<and>
             d '':is_custom:'' = Some (VBool True) \<and>
             d ''pint_unit_registry'' = Some (VStr (str_of ''openff_units'')) \<and>
             is_openff_quantity_dict d = Inr True \<and>
             OPENFF_QUANTITY_from_dict reg d = Inr (VQuantity mag un)"
  using py_mul_multiplicative [OF assms]
  by (simp add: is_openff_quantity_dict_def subscript_def OPENFF_QUANTITY_from_dict_def
      del: py_mul.simps)

text \<open>
  The quantity of the specification's scenario, 9.8 \<^verbatim>\<open>meter/second**2\<close>: its unit
  holds no offset unit.
\<close>

theorem C6_multiplicative_quantity_roundtrip_witness:
  "is_magnitude (VFloat 0x402399999999999A) \<and>
   offset_units example_registry (Unit [(''meter'', 1), (''second'', - 2)]) = [] \<and>
   (\<exists>d. OPENFF_QUANTITY_to_dict gravity = Inr d \<and>
        d ''magnitude'' = Some (VFloat 0x402399999999999A) \<and>
        d ''unit'' = Some (VUnit (Unit [(''meter'', 1), (''second'', - 2)])) \<and>
        d '':is_custom:'' = Some (VBool True) \<and>
        d ''pint_unit_registry'' = Some (VStr (str_of ''openff_units'')) \<and>
        is_openff_quantity_dict d = Inr True \<and>
        OPENFF_QUANTITY_from_dict example_registry d = Inr gravity)"
proof -
  have m: "is_magnitude (VFloat 0x402399999999999A)" by simp
  have none: "offset_units example_registry (Unit [(''meter'', 1), (''second'', - 2)]) = []"
    by (simp add: offset_units_def example_registry_def)
  then have h: "offset_units example_registry (Unit [(''meter'', 1), (''second'', - 2)]) = [] \<or>
      is_number_one (VFloat 0x402399999999999A)"
    by (rule disjI1)
  from C6_multiplicative_quantity_roundtrip [OF m h] m none show ?thesis
    unfolding gravity_def by blast
qed

text \<open>
  The claim as stated fails: the quantity 25.0 degrees Celsius is encoded and its
  dictionary accepted, but the product \<^verbatim>\<open>25.0 * degree_Celsius\<close> of the decode raises
  \<^verbatim>\<open>OffsetUnitCalculusError\<close> in a registry that does not convert offset units
  automatically; the quantity is not reproduced.
\<close>

lemma offset_units_room_temperature:
  "offset_units example_registry (Unit [(''degree_Celsius'', 1)]) = [(''degree_Celsius'', 1)]"
  by (simp add: offset_units_def example_registry_def)

lemma py_mul_room_temperature:
  "py_mul example_registry (VFloat 0x4039000000000000) (VUnit (Unit [(''degree_Celsius'', 1)]))
     = Inl OffsetUnitCalculusError"
proof -
  have "\<not> ok_for_muldiv example_registry (Unit [(''degree_Celsius'', 1)])"
    unfolding ok_for_muldiv_def offset_units_room_temperature
    by (simp add: example_registry_def)
  moreover have "\<not> is_number_one (VFloat 0x4039000000000000)" by simp
  ultimately show ?thesis by (simp add: offset_units_room_temperature)
qed

theorem C6_offset_unit_counterexample:
  "OPENFF_QUANTITY_to_dict room_temperature = Inr room_temperature_dict \<and>
   is_openff_quantity_dict room_temperature_dict = Inr True \<and>
   OPENFF_QUANTITY_from_dict example_registry room_temperature_dict
     = Inl OffsetUnitCalculusError \<and>
   OPENFF_QUANTITY_from_dict example_registry room_temperature_dict \<noteq> Inr room_temperature"
proof -
  have "OPENFF_QUANTITY_to_dict room_temperature = Inr room_temperature_dict"
    by (simp add: room_temperature_def room_temperature_dict_def)
  moreover have "is_openff_quantity_dict room_temperature_dict = Inr True"
    by (simp add: is_openff_quantity_dict_def subscript_def room_temperature_dict_def)
  moreover have "OPENFF_QUANTITY_from_dict example_registry room_temperature_dict
      = Inl OffsetUnitCalculusError"
    using py_mul_room_temperature
    by (simp add: OPENFF_QUANTITY_from_dict_def room_temperature_dict_def del: py_mul.simps)
  ultimately show ?thesis by simp
qed

subsection \<open>How many codecs match a dictionary\<close>

lemma is_openff_unit_dict_True:
  "is_openff_unit_dict d = Inr True \<Longrightarrow>
   d ''pint_unit_registry'' \<noteq> None \<and> d ''unit_name'' \<noteq> None"
  by (auto simp: is_openff_unit_dict_def split: if_splits)

lemma is_openff_quantity_dict_True:
  "is_openff_quantity_dict d = Inr True \<Longrightarrow>
   d ''pint_unit_registry'' \<noteq> None \<and> d ''magnitude'' \<noteq> None \<and> d ''unit'' \<noteq> None"
  by (auto simp: is_openff_quantity_dict_def split: if_splits)

lemma inherited_is_my_dict_True:
  assumes "fst (inherited_is_my_dict get_class a base s) = Inr True"
  shows "(dicts s ! a) ''__module__'' \<noteq> None \<and> (dicts s ! a) ''__class__'' \<noteq> None"
proof (rule ccontr)
  assume "\<not> ((dicts s ! a) ''__module__'' \<noteq> None \<and> (dicts s ! a) ''__class__'' \<noteq> None)"
  then have "(dicts s ! a) ''__module__'' = None \<or> (dicts s ! a) ''__class__'' = None"
    by simp
  then have "inherited_is_my_dict get_class a base s = (Inr False, s)"
    by (rule inherited_is_my_dict_absent)
  with assms show False by simp
qed

lemma class_identity_match_keys:
  "class_identity_match c d \<Longrightarrow> d ''__module__'' \<noteq> None \<and> d ''__class__'' \<noteq> None"
  by (simp add: class_identity_match_def)

lemma settings_excludes_identity:
  assumes "outside_hierarchy get_class base c" and "class_identity_match c (dicts s ! a)"
  shows "fst (inherited_is_my_dict get_class a base s) \<noteq> Inr True"
proof -
  from assms(2) have m: "(dicts s ! a) ''__module__'' = Some (VStr (str_of (cls_module c)))"
    and q: "(dicts s ! a) ''__class__'' = Some (VStr (str_of (cls_name c)))"
    by (simp_all add: class_identity_match_def)
  from assms(1) show ?thesis
    by (auto simp: inherited_is_my_dict_present [OF m q] outside_hierarchy_def
        split: sum.splits option.splits)
qed

lemma identity_matches_exclusive:
  "\<not> (class_identity_match Path_class d \<and> class_identity_match bytes_class d)"
  "\<not> (class_identity_match Path_class d \<and> class_identity_match ndarray_class d)"
  "\<not> (class_identity_match bytes_class d \<and> class_identity_match ndarray_class d)"
  by (auto simp: class_identity_match_def Path_class_def bytes_class_def ndarray_class_def
      str_of_inject)

text \<open>
  Claim C7, as amended. For every dictionary that does not combine the keys of two
  encodings (it lacks one of \<^verbatim>\<open>unit_name\<close>, \<^verbatim>\<open>magnitude\<close>, \<^verbatim>\<open>unit\<close>, and it lacks
  one of \<^verbatim>\<open>pint_unit_registry\<close>, \<^verbatim>\<open>__module__\<close>, \<^verbatim>\<open>__class__\<close>), and a class
  resolver that does not resolve the names of the path, bytes and array classes into the
  settings hierarchy, at most one of the dictionary matches (\<^verbatim>\<open>is_openff_unit_dict\<close>,
  \<^verbatim>\<open>is_openff_quantity_dict\<close>, the settings codec's \<^verbatim>\<open>inherited_is_my_dict\<close>, and the
  class-identity matches of the path, bytes and array codecs) returns true.
\<close>

theorem C7_at_most_one_match:
  assumes "(dicts s ! a) ''unit_name'' = None \<or> (dicts s ! a) ''magnitude'' = None \<or>
           (dicts s ! a) ''unit'' = None"
    and "(dicts s ! a) ''pint_unit_registry'' = None \<or> (dicts s ! a) ''__module__'' = None \<or>
         (dicts s ! a) ''__class__'' = None"
    and "list_all (outside_hierarchy get_class base) [Path_class, bytes_class, ndarray_class]"
  shows "length (filter id (dict_matches get_class base a s)) \<le> 1"
proof -
  let ?d = "dicts s ! a"
  define u where "u = (is_openff_unit_dict ?d = Inr True)"
  define q where "q = (is_openff_quantity_dict ?d = Inr True)"
  define st where "st = (fst (inherited_is_my_dict get_class a base s) = Inr True)"
  define p where "p = class_identity_match Path_class ?d"
  define b where "b = class_identity_match bytes_class ?d"
  define n where "n = class_identity_match ndarray_class ?d"
  have uq: "\<not> (u \<and> q)"
    using assms(1) is_openff_unit_dict_True [of ?d] is_openff_quantity_dict_True [of ?d]
    unfolding u_def q_def by blast
  have reg: "u \<or> q \<longrightarrow> ?d ''pint_unit_registry'' \<noteq> None"
    using is_openff_unit_dict_True [of ?d] is_openff_quantity_dict_True [of ?d]
    unfolding u_def q_def by blast
  have cls: "st \<or> p \<or> b \<or> n \<longrightarrow> ?d ''__module__'' \<noteq> None \<and> ?d ''__class__'' \<noteq> None"
    using inherited_is_my_dict_True [of get_class a base s] class_identity_match_keys [of _ ?d]
    unfolding st_def p_def b_def n_def by blast
  have cross: "\<not> ((u \<or> q) \<and> (st \<or> p \<or> b \<or> n))"
    using reg cls assms(2) by auto
  have sp: "\<not> (st \<and> (p \<or> b \<or> n))"
    using assms(3) settings_excludes_identity [of get_class base _ s a]
    unfolding st_def p_def b_def n_def by auto
  have pbn: "\<not> (p \<and> b)" "\<not> (p \<and> n)" "\<not> (b \<and> n)"
    using identity_matches_exclusive [of ?d] unfolding p_def b_def n_def by blast+
  have "length (filter id [u, q, st, p, b, n]) \<le> 1"
    using uq cross sp pbn by (cases u; cases q; cases st; cases p; cases b; cases n) simp_all
  then show ?thesis
    by (simp only: dict_matches_def u_def q_def st_def p_def b_def n_def)
qed

lemma mro_Path: "mro Path_class \<noteq> None \<and> (\<forall>l. mro Path_class = Some l \<longrightarrow> SettingsBaseModel_class \<notin> set l)"
  by (simp add: Path_class_def object_class_def SettingsBaseModel_class_def c3_merge.simps
      drop_head_def)

lemma mro_bytes: "mro bytes_class \<noteq> None \<and> (\<forall>l. mro bytes_class = Some l \<longrightarrow> SettingsBaseModel_class \<notin> set l)"
  by (simp add: bytes_class_def object_class_def SettingsBaseModel_class_def c3_merge.simps
      drop_head_def)

lemma mro_ndarray: "mro ndarray_class \<noteq> None \<and> (\<forall>l. mro ndarray_class = Some l \<longrightarrow> SettingsBaseModel_class \<notin> set l)"
  by (simp add: ndarray_class_def object_class_def SettingsBaseModel_class_def c3_merge.simps
      drop_head_def)

lemma example_outside:
  "list_all (outside_hierarchy example_get_class SettingsBaseModel_class)
     [Path_class, bytes_class, ndarray_class]"
proof -
  have "example_get_class (VStr (str_of (cls_module Path_class))) (VStr (str_of (cls_name Path_class)))
          = Inr Path_class"
    and "example_get_class (VStr (str_of (cls_module bytes_class))) (VStr (str_of (cls_name bytes_class)))
          = Inr bytes_class"
    and "example_get_class (VStr (str_of (cls_module ndarray_class))) (VStr (str_of (cls_name ndarray_class)))
          = Inr ndarray_class"
    by (simp_all add: example_get_class_def Path_class_def bytes_class_def ndarray_class_def
        str_of_inject)
  then show ?thesis
    using mro_Path mro_bytes mro_ndarray
    by (auto simp: outside_hierarchy_def split: option.splits)
qed

text \<open>On the example settings dictionary only the settings codec matches.\<close>

theorem C7_at_most_one_match_witness:
  "((dicts settings_store ! 0) ''unit_name'' = None \<or> (dicts settings_store ! 0) ''magnitude'' = None \<or>
    (dicts settings_store ! 0) ''unit'' = None) \<and>
   ((dicts settings_store ! 0) ''pint_unit_registry'' = None \<or>
    (dicts settings_store ! 0) ''__module__'' = None \<or> (dicts settings_store ! 0) ''__class__'' = None) \<and>
   list_all (outside_hierarchy example_get_class SettingsBaseModel_class)
     [Path_class, bytes_class, ndarray_class] \<and>
   length (filter id (dict_matches example_get_class SettingsBaseModel_class 0 settings_store)) \<le> 1 \<and>
   dict_matches example_get_class SettingsBaseModel_class 0 settings_store ! 2"
proof -
  have h1: "(dicts settings_store ! 0) ''unit_name'' = None \<or> (dicts settings_store ! 0) ''magnitude'' = None \<or>
    (dicts settings_store ! 0) ''unit'' = None"
    and h2: "(dicts settings_store ! 0) ''pint_unit_registry'' = None \<or>
    (dicts settings_store ! 0) ''__module__'' = None \<or> (dicts settings_store ! 0) ''__class__'' = None"
    by (simp_all add: settings_store_def settings_dict_def)
  from C7_at_most_one_match [OF h1 h2 example_outside]
  have "length (filter id (dict_matches example_get_class SettingsBaseModel_class 0 settings_store)) \<le> 1" .
  moreover have "dict_matches example_get_class SettingsBaseModel_class 0 settings_store ! 2"
    using settings_matches by (simp add: dict_matches_def)
  ultimately show ?thesis using h1 h2 example_outside by blast
qed

text \<open>
  The claim as stated fails: a dictionary that holds \<^verbatim>\<open>unit_name\<close> together with
  \<^verbatim>\<open>magnitude\<close> and \<^verbatim>\<open>unit\<close> is accepted by \<^verbatim>\<open>is_openff_unit_dict\<close> and by
  \<^verbatim>\<open>is_openff_quantity_dict\<close>.
\<close>

theorem C7_two_matches_counterexample:
  "is_openff_unit_dict unit_and_quantity_dict = Inr True \<and>
   is_openff_quantity_dict unit_and_quantity_dict = Inr True \<and>
   length (filter id (dict_matches example_get_class SettingsBaseModel_class 0
             \<lparr>dicts = [unit_and_quantity_dict], resolver_calls = []\<rparr>)) = 2"
proof -
  have u: "is_openff_unit_dict unit_and_quantity_dict = Inr True"
    and q: "is_openff_quantity_dict unit_and_quantity_dict = Inr True"
    by (simp_all add: is_openff_unit_dict_def is_openff_quantity_dict_def subscript_def
        unit_and_quantity_dict_def)
  have m: "unit_and_quantity_dict ''__module__'' = None"
    by (simp add: unit_and_quantity_dict_def)
  then have "inherited_is_my_dict example_get_class 0 SettingsBaseModel_class
      \<lparr>dicts = [unit_and_quantity_dict], resolver_calls = []\<rparr>
      = (Inr False, \<lparr>dicts = [unit_and_quantity_dict], resolver_calls = []\<rparr>)"
    by (simp add: inherited_is_my_dict_absent)
  with u q m show ?thesis
    by (simp add: dict_matches_def class_identity_match_def)
qed

subsection \<open>The array codec on malformed dictionaries\<close>

lemma frombuffer_bytes_cases:
  "frombuffer p (VBytes b) dt = Inl ValueError \<or>
   (length b = itemsize dt * (length b div itemsize dt) \<and>
    (\<exists>d. frombuffer p (VBytes b) dt = Inr \<lparr>dtype = dt, shape = [length b div itemsize dt], data = d\<rparr>))"
  by (auto simp: frombuffer_def)

lemma reshape_wrong_size:
  assumes "prod_list (shape a) \<noteq> prod_list sh"
  shows "reshape a (VList (map (\<lambda>n. VInt (int n)) sh)) = Inl ValueError"
proof -
  have "filter (\<lambda>d. d < 0) (map int sh) = []" by (simp add: filter_empty_conv)
  moreover have "map nat (map int sh) = sh" by (simp add: map_idI)
  ultimately have "resolve_dims (prod_list (shape a)) (map int sh) = Inl ValueError"
    using assms by (simp add: resolve_dims_def)
  then show ?thesis
    unfolding reshape_def shape_arg_shape by simp
qed

text \<open>
  Claim C8, as amended. For every array-shaped dictionary from which the \<^verbatim>\<open>bytes\<close> key
  is missing, \<^verbatim>\<open>NUMPY_CODEC.from_dict\<close> fails with \<^verbatim>\<open>KeyError('bytes')\<close>, raised by
  the lookup before any byte is reinterpreted. For every dictionary whose \<^verbatim>\<open>dtype\<close>
  entry names a data type and whose \<^verbatim>\<open>bytes\<close> payload has a length different from the
  item size of that data type times the product of its shape (a list of non-negative
  integers), it fails with \<^verbatim>\<open>ValueError\<close>, raised by \<^verbatim>\<open>np.frombuffer\<close> or by
  \<^verbatim>\<open>reshape\<close>. In neither case is an array returned.
\<close>

theorem C8_numpy_from_dict_errors:
  "(dct ''bytes'' = None \<longrightarrow> NUMPY_from_dict p dct = Inl (KeyError ''bytes'')) \<and>
   (dct ''bytes'' = Some (VBytes b) \<and> dct ''dtype'' = Some name \<and> np_dtype p name = Inr dt \<and>
    dct ''shape'' = Some (VList (map (\<lambda>n. VInt (int n)) sh)) \<and>
    length b \<noteq> itemsize dt * prod_list sh
      \<longrightarrow> NUMPY_from_dict p dct = Inl ValueError)"
proof (intro conjI impI)
  assume "dct ''bytes'' = None"
  then show "NUMPY_from_dict p dct = Inl (KeyError ''bytes'')"
    by (simp add: NUMPY_from_dict_def)
next
  assume a: "dct ''bytes'' = Some (VBytes b) \<and> dct ''dtype'' = Some name \<and> np_dtype p name = Inr dt \<and>
    dct ''shape'' = Some (VList (map (\<lambda>n. VInt (int n)) sh)) \<and>
    length b \<noteq> itemsize dt * prod_list sh"
  from frombuffer_bytes_cases [of p b dt]
  show "NUMPY_from_dict p dct = Inl ValueError"
  proof
    assume "frombuffer p (VBytes b) dt = Inl ValueError"
    with a show ?thesis by (simp add: NUMPY_from_dict_def)
  next
    assume "length b = itemsize dt * (length b div itemsize dt) \<and>
      (\<exists>d. frombuffer p (VBytes b) dt = Inr \<lparr>dtype = dt, shape = [length b div itemsize dt], data = d\<rparr>)"
    then obtain d where len: "length b = itemsize dt * (length b div itemsize dt)"
      and fb: "frombuffer p (VBytes b) dt = Inr \<lparr>dtype = dt, shape = [length b div itemsize dt], data = d\<rparr>"
      by blast
    from len a have "length b div itemsize dt \<noteq> prod_list sh" by auto
    then have "reshape \<lparr>dtype = dt, shape = [length b div itemsize dt], data = d\<rparr>
                 (VList (map (\<lambda>n. VInt (int n)) sh)) = Inl ValueError"
      by (intro reshape_wrong_size) simp
    with a fb show ?thesis by (simp add: NUMPY_from_dict_def)
  qed
qed

lemma np_dtype_int64: "np_dtype LittleEndian (VStr (str_of ''int64'')) = Inr int64"
proof -
  have "valid_dtype int64" by (simp add: valid_dtype_def dtype_table_def int64_def)
  then have "parse_dtype LittleEndian (str_of (str_dtype LittleEndian int64)) = Some int64"
    by (rule parse_str_dtype)
  moreover have "str_dtype LittleEndian int64 = ''int64''"
    by (simp add: str_dtype_def int64_def dtype_name_def bits_digits_def)
  ultimately show ?thesis by simp
qed

lemma frombuffer_short:
  "frombuffer LittleEndian (VBytes [1, 0, 0, 0, 0, 0, 0, 0, 2, 0, 0, 0, 0, 0, 0, 0]) int64
     = Inr \<lparr>dtype = int64, shape = [2], data = Row [Item 1, Item 2]\<rparr>"
  by (simp add: frombuffer_def int64_def elem_value_def dtype_endian_def)

text \<open>Both failures on the two example dictionaries.\<close>

theorem C8_numpy_from_dict_errors_witness:
  "no_bytes_dict ''bytes'' = None \<and>
   NUMPY_from_dict LittleEndian no_bytes_dict = Inl (KeyError ''bytes'') \<and>
   NUMPY_from_dict LittleEndian short_bytes_dict = Inl ValueError"
proof -
  have nb: "no_bytes_dict ''bytes'' = None" by (simp add: no_bytes_dict_def)
  have sb: "short_bytes_dict ''bytes'' = Some (VBytes [1, 0, 0, 0, 0, 0, 0, 0, 2, 0, 0, 0, 0, 0, 0, 0]) \<and>
      short_bytes_dict ''dtype'' = Some (VStr (str_of ''int64'')) \<and>
      np_dtype LittleEndian (VStr (str_of ''int64'')) = Inr int64 \<and>
      short_bytes_dict ''shape'' = Some (VList (map (\<lambda>n. VInt (int n)) [2, 3])) \<and>
      length [1, 0, 0, 0, 0, 0, 0, 0, 2, 0, 0, 0, 0, 0, 0, 0 :: byte] \<noteq> itemsize int64 * prod_list [2, 3]"
    using np_dtype_int64 by (simp add: short_bytes_dict_def int64_def)
  from C8_numpy_from_dict_errors [where dct = no_bytes_dict and p = LittleEndian] nb
  have "NUMPY_from_dict LittleEndian no_bytes_dict = Inl (KeyError ''bytes'')" by blast
  moreover from C8_numpy_from_dict_errors
    [where dct = short_bytes_dict and b = "[1, 0, 0, 0, 0, 0, 0, 0, 2, 0, 0, 0, 0, 0, 0, 0]"
       and name = "VStr (str_of ''int64'')" and p = LittleEndian and dt = int64 and sh = "[2, 3]"] sb
  have "NUMPY_from_dict LittleEndian short_bytes_dict = Inl ValueError" by blast
  ultimately show ?thesis using nb by simp
qed

text \<open>
  The claim as stated fails: the error for the missing key is \<^verbatim>\<open>KeyError\<close>, not
  \<^verbatim>\<open>MalformedCanonicalDict\<close>; and for the 16-byte payload \<^verbatim>\<open>np.frombuffer\<close> has
  already reinterpreted the bytes as two items when \<^verbatim>\<open>reshape\<close> raises
  \<^verbatim>\<open>ValueError\<close>.
\<close>

theorem C8_malformed_counterexample:
  "NUMPY_from_dict LittleEndian no_bytes_dict = Inl (KeyError ''bytes'') \<and>
   NUMPY_from_dict LittleEndian no_bytes_dict \<noteq> Inl MalformedCanonicalDict \<and>
   frombuffer LittleEndian (VBytes [1, 0, 0, 0, 0, 0, 0, 0, 2, 0, 0, 0, 0, 0, 0, 0]) int64
     = Inr \<lparr>dtype = int64, shape = [2], data = Row [Item 1, Item 2]\<rparr> \<and>
   NUMPY_from_dict LittleEndian short_bytes_dict = Inl ValueError \<and>
   NUMPY_from_dict LittleEndian short_bytes_dict \<noteq> Inl MalformedCanonicalDict"
proof -
  have "NUMPY_from_dict LittleEndian no_bytes_dict = Inl (KeyError ''bytes'')"
    by (simp add: NUMPY_from_dict_def no_bytes_dict_def)
  moreover have "reshape \<lparr>dtype = int64, shape = [2], data = Row [Item 1, Item 2]\<rparr>
      (VList [VInt 2, VInt 3]) = Inl ValueError"
    by (simp add: reshape_def resolve_dims_def)
  then have "NUMPY_from_dict LittleEndian short_bytes_dict = Inl ValueError"
    using np_dtype_int64 frombuffer_short
    by (simp add: NUMPY_from_dict_def short_bytes_dict_def del: np_dtype.simps)
  ultimately show ?thesis using frombuffer_short by simp
qed

subsection \<open>The caller's dictionary is left unchanged\<close>

text \<open>
  Claim C9. For every input mapping, \<^verbatim>\<open>default_from_dict\<close> and
  \<^verbatim>\<open>inherited_is_my_dict\<close> leave it unchanged: whatever the outcome of the call, every
  dictionary that existed before the call, the caller's among them, holds the same keys
  and values after it; the keys are popped from a copy.
\<close>

theorem C9_caller_dict_unchanged:
  "take (length (dicts s)) (dicts (snd (default_from_dict get_class construct a s))) = dicts s \<and>
   take (length (dicts s)) (dicts (snd (inherited_is_my_dict get_class a cls s))) = dicts s \<and>
   (a < length (dicts s) \<longrightarrow>
      dicts (snd (default_from_dict get_class construct a s)) ! a = dicts s ! a \<and>
      dicts (snd (inherited_is_my_dict get_class a cls s)) ! a = dicts s ! a)"
proof -
  obtain d where d: "dicts (snd (default_from_dict get_class construct a s)) = dicts s @ [d]"
    using default_from_dict_frame by blast
  then have t1: "take (length (dicts s)) (dicts (snd (default_from_dict get_class construct a s))) = dicts s"
    by simp
  have t2: "take (length (dicts s)) (dicts (snd (inherited_is_my_dict get_class a cls s))) = dicts s"
    by (rule inherited_is_my_dict_frame)
  have "dicts (snd (default_from_dict get_class construct a s)) ! a = dicts s ! a"
    and "dicts (snd (inherited_is_my_dict get_class a cls s)) ! a = dicts s ! a"
    if "a < length (dicts s)"
    using that nth_take [of a "length (dicts s)"] t1 t2 by metis+
  with t1 t2 show ?thesis by blast
qed

text \<open>
  After both calls on the example store the caller's dictionary is still the example
  settings dictionary, and the store holds one more dictionary, the copy.
\<close>

theorem C9_caller_dict_unchanged_witness:
  "0 < length (dicts settings_store) \<and>
   dicts (snd (default_from_dict example_get_class example_construct 0 settings_store)) ! 0
     = settings_dict \<and>
   dicts (snd (inherited_is_my_dict example_get_class 0 SettingsBaseModel_class settings_store)) ! 0
     = settings_dict \<and>
   length (dicts (snd (default_from_dict example_get_class example_construct 0 settings_store))) = 2 \<and>
   length (dicts (snd (inherited_is_my_dict example_get_class 0 SettingsBaseModel_class settings_store))) = 2"
proof -
  have len: "0 < length (dicts settings_store)" and d0: "dicts settings_store ! 0 = settings_dict"
    by (simp_all add: settings_store_def)
  from C9_caller_dict_unchanged
    [of settings_store example_get_class example_construct 0 SettingsBaseModel_class] len d0
  have "dicts (snd (default_from_dict example_get_class example_construct 0 settings_store)) ! 0
     = settings_dict"
    and "dicts (snd (inherited_is_my_dict example_get_class 0 SettingsBaseModel_class settings_store)) ! 0
     = settings_dict"
    by simp_all
  moreover have "length (dicts (snd (default_from_dict example_get_class example_construct 0 settings_store))) = 2"
    by (simp add: default_from_dict_present [OF settings_store_keys]) (simp add: settings_store_def)
  moreover have "length (dicts (snd (inherited_is_my_dict example_get_class 0 SettingsBaseModel_class settings_store))) = 2"
    by (simp add: inherited_is_my_dict_present [OF settings_store_keys(1,2)]) (simp add: settings_store_def)
  ultimately show ?thesis using len by simp
qed

subsection \<open>Dictionaries with a missing key\<close>

lemma is_openff_unit_dict_missing:
  "dct ''pint_unit_registry'' = None \<or> dct ''unit_name'' = None \<or> dct '':is_custom:'' = None \<Longrightarrow>
   is_openff_unit_dict dct = Inr False"
  by (auto simp: is_openff_unit_dict_def)

lemma is_openff_quantity_dict_missing:
  "dct ''pint_unit_registry'' = None \<or> dct ''magnitude'' = None \<or> dct '':is_custom:'' = None \<or>
   dct ''unit'' = None \<Longrightarrow> is_openff_quantity_dict dct = Inr False"
  by (auto simp: is_openff_quantity_dict_def)

text \<open>
  Claim C10. For every mapping that lacks the \<^verbatim>\<open>__module__\<close> key or the \<^verbatim>\<open>__class__\<close>
  key, \<^verbatim>\<open>inherited_is_my_dict\<close> returns false, raises nothing and leaves the store as it
  is, so that no call of the class resolver is made, whatever the resolver; and
  \<^verbatim>\<open>is_openff_unit_dict\<close> and \<^verbatim>\<open>is_openff_quantity_dict\<close> return false, raising
  nothing, on every mapping that lacks one of their expected keys.
\<close>

theorem C10_missing_keys_false:
  "((dicts s ! a) ''__module__'' = None \<or> (dicts s ! a) ''__class__'' = None
      \<longrightarrow> inherited_is_my_dict get_class a cls s = (Inr False, s)) \<and>
   (dct ''pint_unit_registry'' = None \<or> dct ''unit_name'' = None \<or> dct '':is_custom:'' = None
      \<longrightarrow> is_openff_unit_dict dct = Inr False) \<and>
   (dct ''pint_unit_registry'' = None \<or> dct ''magnitude'' = None \<or> dct '':is_custom:'' = None \<or>
    dct ''unit'' = None
      \<longrightarrow> is_openff_quantity_dict dct = Inr False)"
  using is_openff_unit_dict_missing [of dct] is_openff_quantity_dict_missing [of dct]
  by (auto simp: inherited_is_my_dict_def)

text \<open>The example dictionary without \<^verbatim>\<open>__module__\<close> and without a registry entry.\<close>

theorem C10_missing_keys_false_witness:
  "partial_dict ''__module__'' = None \<and> partial_dict ''pint_unit_registry'' = None \<and>
   inherited_is_my_dict example_get_class 0 SettingsBaseModel_class
      \<lparr>dicts = [partial_dict], resolver_calls = []\<rparr>
     = (Inr False, \<lparr>dicts = [partial_dict], resolver_calls = []\<rparr>) \<and>
   is_openff_unit_dict partial_dict = Inr False \<and>
   is_openff_quantity_dict partial_dict = Inr False"
proof -
  have m: "partial_dict ''__module__'' = None" and r: "partial_dict ''pint_unit_registry'' = None"
    by (simp_all add: partial_dict_def)
  from C10_missing_keys_false
    [where s = "\<lparr>dicts = [partial_dict], resolver_calls = []\<rparr>" and a = 0
       and dct = partial_dict and get_class = example_get_class and cls = SettingsBaseModel_class]
  show ?thesis using m r by simp
qed

end
